theory Spec2Isabelle
  imports Complex_Main
begin

section \<open>Python strings\<close>

text \<open>
  A Python \<open>str\<close> is a sequence of Unicode code points and \<open>len\<close> counts code points,
  so a string is a list of code points here. \<open>str\<close> turns an ASCII literal into one;
  a code point beyond ASCII is written as its number (\<open>[233]\<close> is U+00E9).

  The character tables of the Python runtime are tabulated for Basic Latin, the Latin-1
  Supplement and the three further letters U+0152, U+0153 and U+0178, which covers every
  code point in the data of \<open>phonetic_fuzzer.py\<close>. Every other code point is taken as a
  caseless symbol that is neither a letter nor a word character nor white space (except
  the Unicode white space listed in \<open>isspace_cp\<close>).
\<close>

type_synonym pystr = "nat list"

definition str :: "string \<Rightarrow> pystr" where
  "str s = map of_char s"

definition isspace_cp :: "nat \<Rightarrow> bool" where
  "isspace_cp c \<longleftrightarrow>
     (9 \<le> c \<and> c \<le> 13) \<or> (28 \<le> c \<and> c \<le> 32) \<or> c = 133 \<or> c = 160 \<or> c = 5760 \<or>
     (8192 \<le> c \<and> c \<le> 8202) \<or> c = 8232 \<or> c = 8233 \<or> c = 8239 \<or> c = 8287 \<or> c = 12288"

definition isalpha_cp :: "nat \<Rightarrow> bool" where
  "isalpha_cp c \<longleftrightarrow>
     (65 \<le> c \<and> c \<le> 90) \<or> (97 \<le> c \<and> c \<le> 122) \<or> c = 170 \<or> c = 181 \<or> c = 186 \<or>
     (192 \<le> c \<and> c \<le> 214) \<or> (216 \<le> c \<and> c \<le> 246) \<or> (248 \<le> c \<and> c \<le> 255) \<or>
     c = 338 \<or> c = 339 \<or> c = 376"

text \<open>The class \<open>\w\<close> of \<open>re\<close> on \<open>str\<close> patterns: alphanumeric code points and the underscore.\<close>

definition isword_cp :: "nat \<Rightarrow> bool" where
  "isword_cp c \<longleftrightarrow>
     isalpha_cp c \<or> (48 \<le> c \<and> c \<le> 57) \<or> c = 95 \<or>
     c = 178 \<or> c = 179 \<or> c = 185 \<or> c = 188 \<or> c = 189 \<or> c = 190"

text \<open>\<open>str.upper\<close> and \<open>str.lower\<close> map each code point to a string (U+00DF becomes "SS").\<close>

definition upper_cp :: "nat \<Rightarrow> pystr" where
  "upper_cp c =
     (if 97 \<le> c \<and> c \<le> 122 then [c - 32]
      else if c = 181 then [924]
      else if c = 223 then [83, 83]
      else if 224 \<le> c \<and> c \<le> 254 \<and> c \<noteq> 247 then [c - 32]
      else if c = 255 then [376]
      else if c = 339 then [338]
      else [c])"

definition lower_cp :: "nat \<Rightarrow> pystr" where
  "lower_cp c =
     (if 65 \<le> c \<and> c \<le> 90 then [c + 32]
      else if 192 \<le> c \<and> c \<le> 222 \<and> c \<noteq> 215 then [c + 32]
      else if c = 338 then [339]
      else if c = 376 then [255]
      else [c])"

definition upper :: "pystr \<Rightarrow> pystr" where
  "upper s = concat (map upper_cp s)"

definition lower :: "pystr \<Rightarrow> pystr" where
  "lower s = concat (map lower_cp s)"

text \<open>\<open>s.isalpha()\<close>: at least one character, all of them letters.\<close>

definition isalpha :: "pystr \<Rightarrow> bool" where
  "isalpha s \<longleftrightarrow> s \<noteq> [] \<and> list_all isalpha_cp s"

text \<open>\<open>s.startswith(p)\<close>.\<close>

definition startswith :: "pystr \<Rightarrow> pystr \<Rightarrow> bool" where
  "startswith s p \<longleftrightarrow> take (length p) s = p"

text \<open>\<open>s.strip()\<close>: white space removed at both ends.\<close>

definition strip :: "pystr \<Rightarrow> pystr" where
  "strip s = rev (dropWhile isspace_cp (rev (dropWhile isspace_cp s)))"

text \<open>
  \<open>s.replace(old, new)\<close>: the occurrences of \<open>old\<close> are replaced from left to right,
  without overlap. For an empty \<open>old\<close> Python puts \<open>new\<close> before every character and at
  the end.
\<close>

function replace :: "pystr \<Rightarrow> pystr \<Rightarrow> pystr \<Rightarrow> pystr" where
  "replace old new s =
     (if old = [] then new @ concat (map (\<lambda>c. c # new) s)
      else if s = [] then []
      else if startswith s old then new @ replace old new (drop (length old) s)
      else hd s # replace old new (tl s))"
  by pat_completeness auto
termination
  by (relation "measure (\<lambda>(old, new, s). length s)") auto

declare replace.simps [simp del]

text \<open>\<open>s.split(sep)\<close> for a separator of one character: never an empty list.\<close>

fun split_on :: "nat \<Rightarrow> pystr \<Rightarrow> pystr list" where
  "split_on sep [] = [[]]"
| "split_on sep (c # cs) =
     (if c = sep then [] # split_on sep cs
      else (case split_on sep cs of
              [] \<Rightarrow> [[c]]
            | p # ps \<Rightarrow> (c # p) # ps))"

text \<open>\<open>s.split()\<close>: the maximal runs of characters that are not white space.\<close>

function split_ws :: "pystr \<Rightarrow> pystr list" where
  "split_ws s =
     (case dropWhile isspace_cp s of
        [] \<Rightarrow> []
      | c # cs \<Rightarrow> takeWhile (\<lambda>x. \<not> isspace_cp x) (c # cs)
                 # split_ws (dropWhile (\<lambda>x. \<not> isspace_cp x) (c # cs)))"
  by pat_completeness auto
termination
proof (relation "measure length")
  show "wf (measure length)" by simp
next
  fix s :: pystr and c cs
  assume a: "dropWhile isspace_cp s = c # cs"
  have nsp: "\<not> isspace_cp c" using a hd_dropWhile [of isspace_cp s] by simp
  have "length (dropWhile (\<lambda>x. \<not> isspace_cp x) (c # cs)) \<le> length cs"
    using nsp by (simp add: length_dropWhile_le)
  also have "length cs < length (dropWhile isspace_cp s)" using a by simp
  also have "\<dots> \<le> length s" by (rule length_dropWhile_le)
  finally show "(dropWhile (\<lambda>x. \<not> isspace_cp x) (c # cs), s) \<in> measure length" by simp
qed

declare split_ws.simps [simp del]

text \<open>\<open>sep.join(xs)\<close>.\<close>

fun join :: "pystr \<Rightarrow> pystr list \<Rightarrow> pystr" where
  "join sep [] = []"
| "join sep [x] = x"
| "join sep (x # y # ys) = x @ sep @ join sep (y # ys)"

section \<open>Phonetic encoder\<close>

datatype error = UnsupportedLanguage pystr | IndexError

text \<open>The dictionary \<open>mapping\<close> of \<open>Hazer.soundex\<close>, keyed by upper-case letters.\<close>

definition soundex_mapping :: "nat \<rightharpoonup> nat" where
  "soundex_mapping = map_of
     [(of_char CHR ''B'', of_char CHR ''1''), (of_char CHR ''F'', of_char CHR ''1''),
      (of_char CHR ''P'', of_char CHR ''1''), (of_char CHR ''V'', of_char CHR ''1''),
      (of_char CHR ''C'', of_char CHR ''2''), (of_char CHR ''G'', of_char CHR ''2''),
      (of_char CHR ''J'', of_char CHR ''2''), (of_char CHR ''K'', of_char CHR ''2''),
      (of_char CHR ''Q'', of_char CHR ''2''), (of_char CHR ''S'', of_char CHR ''2''),
      (of_char CHR ''X'', of_char CHR ''2''), (of_char CHR ''Z'', of_char CHR ''2''),
      (of_char CHR ''D'', of_char CHR ''3''), (of_char CHR ''T'', of_char CHR ''3''),
      (of_char CHR ''L'', of_char CHR ''4''),
      (of_char CHR ''M'', of_char CHR ''5''), (of_char CHR ''N'', of_char CHR ''5''),
      (of_char CHR ''R'', of_char CHR ''6'')]"

text \<open>
  The loop of \<open>soundex\<close> over \<open>word[1:]\<close>; \<open>code\<close> is \<open>soundex_code\<close>, never empty,
  and \<open>last code\<close> is \<open>soundex_code[-1]\<close>.
\<close>

fun soundex_loop :: "pystr \<Rightarrow> pystr \<Rightarrow> pystr" where
  "soundex_loop code [] = code"
| "soundex_loop code (c # cs) =
     (case soundex_mapping c of
        None \<Rightarrow> soundex_loop code cs
      | Some d \<Rightarrow> if d \<noteq> last code then soundex_loop (code @ [d]) cs
                 else soundex_loop code cs)"

text \<open>\<open>Hazer.soundex\<close>; \<open>word[0]\<close> raises IndexError on an empty string.\<close>

definition soundex :: "pystr \<Rightarrow> error + pystr" where
  "soundex word =
     (if word = [] then Inr (str ''0000'')
      else (case upper word of
              [] \<Rightarrow> Inl IndexError
            | c # cs \<Rightarrow> Inr (take 4 (soundex_loop [c] cs @ str ''0000''))))"

text \<open>
  The loop of \<open>metaphone_simple\<close>: \<open>m\<close> is \<open>metaphone\<close>, \<open>prev\<close> is \<open>prev_char\<close>
  (\<open>None\<close> for the initial empty string, which no character equals).
\<close>

fun metaphone_loop :: "pystr \<Rightarrow> nat option \<Rightarrow> pystr \<Rightarrow> pystr" where
  "metaphone_loop m prev [] = m"
| "metaphone_loop m prev (c # cs) =
     (if c \<in> set (str ''AEIOU'') then
        (if m = [] then metaphone_loop (m @ [c]) (Some c) cs
         else metaphone_loop m (Some c) cs)
      else if Some c \<noteq> prev then metaphone_loop (m @ [c]) (Some c) cs
      else metaphone_loop m (Some c) cs)"

text \<open>\<open>Hazer.metaphone_simple\<close>.\<close>

definition metaphone_simple :: "pystr \<Rightarrow> pystr" where
  "metaphone_simple word =
     (if word = [] then []
      else
        let w1 = replace (str ''GH'') (str ''F'') (replace (str ''PH'') (str ''F'') (upper word));
            w2 = replace (str ''SCH'') (str ''SK'') (replace (str ''CK'') (str ''K'') w1)
        in take 6 (metaphone_loop [] None w2))"

section \<open>Collaborators and floating point\<close>

text \<open>
  What the engine reaches outside its own code, as the fields of an environment:
  \<^item> \<open>http_get url timeout\<close> is \<open>requests.get(url, timeout=...)\<close> followed by
    \<open>raise_for_status()\<close> and \<open>.text\<close>; \<open>None\<close> stands for any exception (no network,
    time-out, bad status, \<open>requests\<close> not installed);
  \<^item> \<open>translate_service source target word\<close> is
    \<open>GoogleTranslator(source=..., target=...).translate(word)\<close>, \<open>None\<close> for any exception;
  \<^item> \<open>compose_service prompt\<close> is the text of the answer of the language model to
    \<open>prompt\<close>, \<open>None\<close> for any exception (a missing API key included);
  \<^item> \<open>ratio a b\<close> is \<open>difflib.SequenceMatcher(None, a, b).ratio()\<close>.
  Within one call of the engine the same request gets the same answer; two calls may be
  given two environments.

  A Python \<open>float\<close> is a real number here, or one of the two infinities or NaN where the
  code can produce them.
\<close>

record env =
  http_get :: "pystr \<Rightarrow> nat \<Rightarrow> pystr option"
  translate_service :: "pystr \<Rightarrow> pystr \<Rightarrow> pystr \<Rightarrow> pystr option"
  compose_service :: "pystr \<Rightarrow> pystr option"
  ratio :: "pystr \<Rightarrow> pystr \<Rightarrow> real"

datatype pyfloat = Fin real | PInf | MInf | NaN

fun pf_less :: "pyfloat \<Rightarrow> pyfloat \<Rightarrow> bool" where
  "pf_less (Fin a) (Fin b) = (a < b)"
| "pf_less (Fin a) PInf = True"
| "pf_less MInf (Fin b) = True"
| "pf_less MInf PInf = True"
| "pf_less a b = False"

fun pf_neg :: "pyfloat \<Rightarrow> pyfloat" where
  "pf_neg (Fin a) = Fin (- a)"
| "pf_neg PInf = MInf"
| "pf_neg MInf = PInf"
| "pf_neg NaN = NaN"

fun pf_add :: "pyfloat \<Rightarrow> pyfloat \<Rightarrow> pyfloat" where
  "pf_add (Fin a) (Fin b) = Fin (a + b)"
| "pf_add NaN b = NaN"
| "pf_add a NaN = NaN"
| "pf_add PInf MInf = NaN"
| "pf_add MInf PInf = NaN"
| "pf_add PInf b = PInf"
| "pf_add a PInf = PInf"
| "pf_add MInf b = MInf"
| "pf_add a MInf = MInf"

definition pf_sub :: "pyfloat \<Rightarrow> pyfloat \<Rightarrow> pyfloat" where
  "pf_sub a b = pf_add a (pf_neg b)"

fun pf_half :: "pyfloat \<Rightarrow> pyfloat" where
  "pf_half (Fin a) = Fin (a / 2)"
| "pf_half a = a"

section \<open>Similarity scorer\<close>

text \<open>\<open>Hazer.phonetic_distance\<close>.\<close>

definition phonetic_distance :: "env \<Rightarrow> pystr \<Rightarrow> pystr \<Rightarrow> error + real" where
  "phonetic_distance E word1 word2 =
     (let w1 = lower word1; w2 = lower word2 in
      case soundex w1 of Inl e \<Rightarrow> Inl e | Inr soundex1 \<Rightarrow>
      case soundex w2 of Inl e \<Rightarrow> Inl e | Inr soundex2 \<Rightarrow>
      let soundex_sim = ratio E soundex1 soundex2;
          metaphone_sim = ratio E (metaphone_simple w1) (metaphone_simple w2);
          string_sim = ratio E w1 w2;
          len_penalty = \<bar>real (length w1) - real (length w2)\<bar>
                        / real (max (max (length w1) (length w2)) 1);
          combined_sim = (soundex_sim * 0.4 + metaphone_sim * 0.4 + string_sim * 0.2)
                         - len_penalty * 0.1
      in Inr (1 - combined_sim))"

section \<open>Word list provider\<close>

text \<open>The embedded lists of \<open>Hazer._get_builtin_wordlist\<close>, in the order of the source.\<close>

definition english_words :: "pystr list" where
  "english_words =
    [str ''hello'', str ''world'', str ''computer'', str ''language'', str ''phone'',
     str ''house'', str ''water'', str ''fire'', str ''tree'', str ''mountain'', str ''river'',
     str ''ocean'', str ''sky'', str ''sun'', str ''moon'', str ''star'', str ''book'',
     str ''pen'', str ''paper'', str ''table'', str ''chair'', str ''window'', str ''door'',
     str ''car'', str ''bicycle'', str ''airplane'', str ''train'', str ''ship'',
     str ''bridge'', str ''road'', str ''city'', str ''town'', str ''friend'', str ''family'',
     str ''mother'', str ''father'', str ''brother'', str ''sister'', str ''child'',
     str ''baby'', str ''dog'', str ''cat'', str ''bird'', str ''fish'', str ''horse'',
     str ''cow'', str ''sheep'', str ''chicken'', str ''apple'', str ''orange'', str ''banana'',
     str ''grape'', str ''strawberry'', str ''bread'', str ''milk'', str ''cheese'',
     str ''head'', str ''eye'', str ''nose'', str ''mouth'', str ''ear'', str ''hand'',
     str ''foot'', str ''arm'', str ''leg'', str ''finger'', str ''heart'', str ''brain'',
     str ''stomach'', str ''back'', str ''shoulder'', str ''knee'', str ''elbow'', str ''neck'',
     str ''red'', str ''blue'', str ''green'', str ''yellow'', str ''black'', str ''white'',
     str ''purple'', str ''orange'', str ''pink'', str ''brown'', str ''gray'', str ''silver'',
     str ''gold'', str ''violet'', str ''turquoise'', str ''crimson'', str ''one'', str ''two'',
     str ''three'', str ''four'', str ''five'', str ''six'', str ''seven'', str ''eight'',
     str ''nine'', str ''ten'', str ''potato'', str ''tomato'', str ''carrot'', str ''onion'',
     str ''garlic'', str ''pepper'', str ''salt'', str ''sugar'', str ''coffee'', str ''tea'',
     str ''beer'', str ''wine'', str ''juice'', str ''soda'', str ''chocolate'', str ''cake'',
     str ''pizza'', str ''hamburger'', str ''sandwich'', str ''soup'', str ''salad'',
     str ''rice'', str ''pasta'', str ''meat'', str ''rain'', str ''snow'', str ''wind'',
     str ''storm'', str ''cloud'', str ''sunshine'', str ''thunder'', str ''lightning'',
     str ''hot'', str ''cold'', str ''warm'', str ''cool'', str ''wet'', str ''dry'',
     str ''humid'', str ''freezing'', str ''forest'', str ''desert'', str ''beach'',
     str ''island'', str ''valley'', str ''hill'', str ''lake'', str ''pond'', str ''flower'',
     str ''grass'', str ''leaf'', str ''branch'', str ''root'', str ''seed'', str ''garden'',
     str ''park'', str ''internet'', str ''email'', str ''website'', str ''software'',
     str ''hardware'', str ''keyboard'', str ''mouse'', str ''screen'', str ''smartphone'',
     str ''tablet'', str ''laptop'', str ''desktop'', str ''printer'', str ''camera'',
     str ''video'', str ''photo'', str ''happy'', str ''sad'', str ''angry'', str ''excited'',
     str ''nervous'', str ''calm'', str ''peaceful'', str ''stressed'', str ''beautiful'',
     str ''ugly'', str ''smart'', str ''stupid'', str ''funny'', str ''serious'', str ''kind'',
     str ''mean'', str ''big'', str ''small'', str ''tall'', str ''short'', str ''fat'',
     str ''thin'', str ''old'', str ''young'', str ''new'', str ''ancient'', str ''fast'',
     str ''slow'', str ''strong'', str ''weak'', str ''rich'', str ''poor'', str ''expensive'',
     str ''cheap'', str ''run'', str ''walk'', str ''jump'', str ''swim'', str ''fly'',
     str ''drive'', str ''ride'', str ''climb'', str ''fall'', str ''stand'', str ''sit'',
     str ''sleep'', str ''wake'', str ''eat'', str ''drink'', str ''cook'', str ''clean'',
     str ''wash'', str ''build'', str ''break'', str ''read'', str ''write'', str ''speak'',
     str ''listen'', str ''see'', str ''hear'', str ''touch'', str ''smell'', str ''taste'',
     str ''love'', str ''hate'', str ''like'', str ''want'', str ''need'', str ''have'',
     str ''give'', str ''take'', str ''buy'', str ''sell'']"

definition spanish_words :: "pystr list" where
  "spanish_words =
    [str ''hola'', str ''mundo'', str ''computadora'', str ''idioma'',
     str ''tel'' @ [233] @ str ''fono'', str ''casa'', str ''agua'', str ''fuego'',
     [225] @ str ''rbol'', str ''monta'' @ [241] @ str ''a'', str ''r'' @ [237] @ str ''o'',
     str ''oc'' @ [233] @ str ''ano'', str ''cielo'', str ''sol'', str ''luna'',
     str ''estrella'', str ''libro'', str ''pluma'', str ''papel'', str ''mesa'', str ''silla'',
     str ''ventana'', str ''puerta'', str ''coche'', str ''bicicleta'',
     str ''avi'' @ [243] @ str ''n'', str ''tren'', str ''barco'', str ''puente'',
     str ''carretera'', str ''ciudad'', str ''pueblo'', str ''amigo'', str ''familia'',
     str ''madre'', str ''padre'', str ''hermano'', str ''hermana'',
     str ''ni'' @ [241] @ str ''o'', str ''beb'' @ [233], str ''perro'', str ''gato'',
     str ''p'' @ [225] @ str ''jaro'', str ''pez'', str ''caballo'', str ''vaca'',
     str ''oveja'', str ''pollo'', str ''manzana'', str ''naranja'',
     str ''pl'' @ [225] @ str ''tano'', str ''uva'', str ''fresa'', str ''pan'', str ''leche'',
     str ''queso'', str ''cabeza'', str ''ojo'', str ''nariz'', str ''boca'', str ''oreja'',
     str ''mano'', str ''pie'', str ''brazo'', str ''pierna'', str ''dedo'',
     str ''coraz'' @ [243] @ str ''n'', str ''cerebro'', str ''est'' @ [243] @ str ''mago'',
     str ''espalda'', str ''hombro'', str ''rodilla'', str ''codo'', str ''cuello'',
     str ''rojo'', str ''azul'', str ''verde'', str ''amarillo'', str ''negro'', str ''blanco'',
     str ''morado'', str ''naranja'', str ''rosa'', str ''marr'' @ [243] @ str ''n'',
     str ''gris'', str ''plata'', str ''oro'', str ''violeta'', str ''turquesa'',
     str ''carmes'' @ [237], str ''uno'', str ''dos'', str ''tres'', str ''cuatro'',
     str ''cinco'', str ''seis'', str ''siete'', str ''ocho'', str ''nueve'', str ''diez'',
     str ''papa'', str ''tomate'', str ''zanahoria'', str ''cebolla'', str ''ajo'',
     str ''pimienta'', str ''sal'', str ''az'' @ [250] @ str ''car'', str ''caf'' @ [233],
     str ''t'' @ [233], str ''cerveza'', str ''vino'', str ''jugo'', str ''refresco'',
     str ''chocolate'', str ''pastel'', str ''pizza'', str ''hamburguesa'',
     str ''s'' @ [225] @ str ''ndwich'', str ''sopa'', str ''ensalada'', str ''arroz'',
     str ''pasta'', str ''carne'', str ''lluvia'', str ''nieve'', str ''viento'',
     str ''tormenta'', str ''nube'', str ''sol'', str ''trueno'', str ''rayo'',
     str ''caliente'', str ''fr'' @ [237] @ str ''o'', str ''tibio'', str ''fresco'',
     str ''mojado'', str ''seco'', str ''h'' @ [250] @ str ''medo'', str ''helado'',
     str ''bosque'', str ''desierto'', str ''playa'', str ''isla'', str ''valle'',
     str ''colina'', str ''lago'', str ''estanque'', str ''flor'', str ''hierba'', str ''hoja'',
     str ''rama'', str ''ra'' @ [237] @ str ''z'', str ''semilla'',
     str ''jard'' @ [237] @ str ''n'', str ''parque'', str ''feliz'', str ''triste'',
     str ''enojado'', str ''emocionado'', str ''nervioso'', str ''tranquilo'',
     str ''pac'' @ [237] @ str ''fico'', str ''estresado'', str ''hermoso'', str ''feo'',
     str ''inteligente'', str ''tonto'', str ''divertido'', str ''serio'', str ''amable'',
     str ''malo'', str ''grande'', str ''peque'' @ [241] @ str ''o'', str ''alto'',
     str ''bajo'', str ''gordo'', str ''delgado'', str ''viejo'', str ''joven'', str ''nuevo'',
     str ''antiguo'', str ''r'' @ [225] @ str ''pido'', str ''lento'', str ''fuerte'',
     str ''d'' @ [233] @ str ''bil'', str ''rico'', str ''pobre'', str ''caro'', str ''barato'',
     str ''correr'', str ''caminar'', str ''saltar'', str ''nadar'', str ''volar'',
     str ''conducir'', str ''montar'', str ''subir'', str ''caer'', str ''estar'', str ''amar'',
     str ''odiar'', str ''gustar'', str ''querer'', str ''necesitar'', str ''tener'',
     str ''dar'', str ''tomar'', str ''comprar'', str ''vender'']"

definition french_words :: "pystr list" where
  "french_words =
    [str ''bonjour'', str ''monde'', str ''ordinateur'', str ''langue'',
     str ''t'' @ [233] @ str ''l'' @ [233] @ str ''phone'', str ''maison'', str ''eau'',
     str ''feu'', str ''arbre'', str ''montagne'', str ''rivi'' @ [232] @ str ''re'',
     str ''oc'' @ [233] @ str ''an'', str ''ciel'', str ''soleil'', str ''lune'',
     [233] @ str ''toile'', str ''livre'', str ''stylo'', str ''papier'', str ''table'',
     str ''chaise'', str ''fen'' @ [234] @ str ''tre'', str ''porte'', str ''voiture'',
     str ''bicyclette'', str ''avion'', str ''train'', str ''bateau'', str ''pont'',
     str ''route'', str ''ville'', str ''village'', str ''ami'', str ''famille'',
     str ''m'' @ [232] @ str ''re'', str ''p'' @ [232] @ str ''re'',
     str ''fr'' @ [232] @ str ''re'', str ''s'' @ [339] @ str ''ur'', str ''enfant'',
     str ''b'' @ [233] @ str ''b'' @ [233], str ''chien'', str ''chat'', str ''oiseau'',
     str ''poisson'', str ''cheval'', str ''vache'', str ''mouton'', str ''poulet'',
     str ''pomme'', str ''orange'', str ''banane'', str ''raisin'', str ''fraise'',
     str ''pain'', str ''lait'', str ''fromage'', str ''t'' @ [234] @ str ''te'',
     [339] @ str ''il'', str ''nez'', str ''bouche'', str ''oreille'', str ''main'',
     str ''pied'', str ''bras'', str ''jambe'', str ''doigt'', str ''c'' @ [339] @ str ''ur'',
     str ''cerveau'', str ''estomac'', str ''dos'', [233] @ str ''paule'', str ''genou'',
     str ''coude'', str ''cou'', str ''rouge'', str ''bleu'', str ''vert'', str ''jaune'',
     str ''noir'', str ''blanc'', str ''violet'', str ''orange'', str ''rose'', str ''brun'',
     str ''gris'', str ''argent'', str ''or'', str ''violette'', str ''turquoise'',
     str ''cramoisi'', str ''un'', str ''deux'', str ''trois'', str ''quatre'', str ''cinq'',
     str ''six'', str ''sept'', str ''huit'', str ''neuf'', str ''dix'', str ''caf'' @ [233],
     str ''th'' @ [233], str ''bi'' @ [232] @ str ''re'', str ''vin'', str ''jus'',
     str ''soda'', str ''chocolat'', str ''g'' @ [226] @ str ''teau'', str ''pizza'',
     str ''hamburger'', str ''sandwich'', str ''soupe'', str ''salade'', str ''riz'',
     str ''p'' @ [226] @ str ''tes'', str ''viande'', str ''pluie'', str ''neige'',
     str ''vent'', str ''orage'', str ''nuage'', str ''soleil'', str ''tonnerre'',
     [233] @ str ''clair'', str ''chaud'', str ''froid'', str ''ti'' @ [232] @ str ''de'',
     str ''frais'', str ''mouill'' @ [233], str ''sec'', str ''humide'', str ''gel'' @ [233],
     str ''for'' @ [234] @ str ''t'', str ''d'' @ [233] @ str ''sert'', str ''plage'',
     [238] @ str ''le'', str ''vall'' @ [233] @ str ''e'', str ''colline'', str ''lac'',
     [233] @ str ''tang'', str ''fleur'', str ''herbe'', str ''feuille'', str ''branche'',
     str ''racine'', str ''graine'', str ''jardin'', str ''parc'', str ''heureux'',
     str ''triste'', str ''f'' @ [226] @ str ''ch'' @ [233], str ''excit'' @ [233],
     str ''nerveux'', str ''calme'', str ''paisible'', str ''stress'' @ [233], str ''beau'',
     str ''laid'', str ''intelligent'', str ''stupide'', str ''dr'' @ [244] @ str ''le'',
     str ''s'' @ [233] @ str ''rieux'', str ''gentil'', str ''m'' @ [233] @ str ''chant'',
     str ''grand'', str ''petit'', str ''haut'', str ''court'', str ''gros'', str ''mince'',
     str ''vieux'', str ''jeune'', str ''nouveau'', str ''ancien'', str ''rapide'',
     str ''lent'', str ''fort'', str ''faible'', str ''riche'', str ''pauvre'', str ''cher'',
     str ''bon march'' @ [233], str ''courir'', str ''marcher'', str ''sauter'', str ''nager'',
     str ''voler'', str ''conduire'', str ''monter'', str ''grimper'', str ''tomber'',
     str ''aimer'', str ''d'' @ [233] @ str ''tester'', str ''aimer'', str ''vouloir'',
     str ''avoir besoin'', str ''avoir'', str ''donner'', str ''prendre'', str ''acheter'',
     str ''vendre'']"

definition german_words :: "pystr list" where
  "german_words =
    [str ''hallo'', str ''welt'', str ''computer'', str ''sprache'', str ''telefon'',
     str ''haus'', str ''wasser'', str ''feuer'', str ''baum'', str ''berg'', str ''fluss'',
     str ''ozean'', str ''himmel'', str ''sonne'', str ''mond'', str ''stern'', str ''buch'',
     str ''stift'', str ''papier'', str ''tisch'', str ''stuhl'', str ''fenster'',
     str ''t'' @ [252] @ str ''r'', str ''auto'', str ''fahrrad'', str ''flugzeug'',
     str ''zug'', str ''schiff'', str ''br'' @ [252] @ str ''cke'',
     str ''stra'' @ [223] @ str ''e'', str ''stadt'', str ''dorf'', str ''freund'',
     str ''familie'', str ''mutter'', str ''vater'', str ''bruder'', str ''schwester'',
     str ''kind'', str ''baby'', str ''hund'', str ''katze'', str ''vogel'', str ''fisch'',
     str ''pferd'', str ''kuh'', str ''schaf'', str ''huhn'', str ''apfel'', str ''orange'',
     str ''banane'', str ''traube'', str ''erdbeere'', str ''brot'', str ''milch'',
     str ''k'' @ [228] @ str ''se'', str ''kopf'', str ''auge'', str ''nase'', str ''mund'',
     str ''ohr'', str ''hand'', str ''fu'' @ [223], str ''arm'', str ''bein'', str ''finger'',
     str ''herz'', str ''gehirn'', str ''magen'', str ''r'' @ [252] @ str ''cken'',
     str ''schulter'', str ''knie'', str ''ellbogen'', str ''hals'', str ''rot'', str ''blau'',
     str ''gr'' @ [252] @ str ''n'', str ''gelb'', str ''schwarz'', str ''wei'' @ [223],
     str ''lila'', str ''orange'', str ''rosa'', str ''braun'', str ''grau'', str ''silber'',
     str ''gold'', str ''violett'', str ''t'' @ [252] @ str ''rkis'', str ''karmesin'',
     str ''eins'', str ''zwei'', str ''drei'', str ''vier'', str ''f'' @ [252] @ str ''nf'',
     str ''sechs'', str ''sieben'', str ''acht'', str ''neun'', str ''zehn'', str ''kaffee'',
     str ''tee'', str ''bier'', str ''wein'', str ''saft'', str ''limonade'',
     str ''schokolade'', str ''kuchen'', str ''regen'', str ''schnee'', str ''wind'',
     str ''sturm'', str ''wolke'', str ''sonnenschein'', str ''donner'', str ''blitz'',
     str ''hei'' @ [223], str ''kalt'', str ''warm'', str ''k'' @ [252] @ str ''hl'',
     str ''nass'', str ''trocken'', str ''feucht'', str ''gefroren'', str ''wald'',
     str ''w'' @ [252] @ str ''ste'', str ''strand'', str ''insel'', str ''tal'',
     str ''h'' @ [252] @ str ''gel'', str ''see'', str ''teich'', str ''blume'', str ''gras'',
     str ''blatt'', str ''ast'', str ''wurzel'', str ''samen'', str ''garten'', str ''park'',
     str ''gl'' @ [252] @ str ''cklich'', str ''traurig'', str ''w'' @ [252] @ str ''tend'',
     str ''aufgeregt'', str ''nerv'' @ [246] @ str ''s'', str ''ruhig'', str ''friedlich'',
     str ''gestresst'', str ''sch'' @ [246] @ str ''n'', str ''h'' @ [228] @ str ''sslich'',
     str ''klug'', str ''dumm'', str ''lustig'', str ''ernst'', str ''freundlich'',
     str ''gemein'', str ''gro'' @ [223], str ''klein'', str ''hoch'', str ''kurz'',
     str ''dick'', str ''d'' @ [252] @ str ''nn'', str ''alt'', str ''jung'', str ''neu'',
     str ''alt'', str ''schnell'', str ''langsam'', str ''stark'', str ''schwach'',
     str ''reich'', str ''arm'', str ''teuer'', str ''billig'', str ''laufen'', str ''gehen'',
     str ''springen'', str ''schwimmen'', str ''fliegen'', str ''fahren'', str ''reiten'',
     str ''klettern'', str ''lieben'', str ''hassen'', str ''m'' @ [246] @ str ''gen'',
     str ''wollen'', str ''brauchen'', str ''haben'', str ''geben'', str ''nehmen'',
     str ''kaufen'', str ''verkaufen'']"

definition italian_words :: "pystr list" where
  "italian_words =
    [str ''ciao'', str ''mondo'', str ''computer'', str ''lingua'', str ''telefono'',
     str ''casa'', str ''acqua'', str ''fuoco'', str ''albero'', str ''montagna'',
     str ''fiume'', str ''oceano'', str ''cielo'', str ''sole'', str ''luna'', str ''stella'',
     str ''libro'', str ''penna'', str ''carta'', str ''tavolo'', str ''sedia'',
     str ''finestra'', str ''porta'', str ''macchina'', str ''bicicletta'', str ''aereo'',
     str ''treno'', str ''nave'', str ''ponte'', str ''strada'', str ''citt'' @ [224],
     str ''paese'', str ''amico'', str ''famiglia'', str ''madre'', str ''padre'',
     str ''fratello'', str ''sorella'', str ''bambino'', str ''neonato'', str ''cane'',
     str ''gatto'', str ''uccello'', str ''pesce'', str ''cavallo'', str ''mucca'',
     str ''pecora'', str ''pollo'', str ''mela'', str ''arancia'', str ''banana'', str ''uva'',
     str ''fragola'', str ''pane'', str ''latte'', str ''formaggio'', str ''testa'',
     str ''occhio'', str ''naso'', str ''bocca'', str ''orecchio'', str ''mano'', str ''piede'',
     str ''braccio'', str ''gamba'', str ''dito'', str ''cuore'', str ''cervello'',
     str ''stomaco'', str ''schiena'', str ''spalla'', str ''ginocchio'', str ''gomito'',
     str ''collo'', str ''rosso'', str ''blu'', str ''verde'', str ''giallo'', str ''nero'',
     str ''bianco'', str ''viola'', str ''arancione'', str ''rosa'', str ''marrone'',
     str ''grigio'', str ''argento'', str ''oro'', str ''violetto'', str ''turchese'',
     str ''cremisi'', str ''uno'', str ''due'', str ''tre'', str ''quattro'', str ''cinque'',
     str ''sei'', str ''sette'', str ''otto'', str ''nove'', str ''dieci'',
     str ''caff'' @ [232], str ''t'' @ [232], str ''birra'', str ''vino'', str ''succo'',
     str ''soda'', str ''cioccolato'', str ''torta'', str ''pioggia'', str ''neve'',
     str ''vento'', str ''tempesta'', str ''nuvola'', str ''sole'', str ''tuono'',
     str ''fulmine'', str ''caldo'', str ''freddo'', str ''tiepido'', str ''fresco'',
     str ''bagnato'', str ''secco'', str ''umido'', str ''gelato'', str ''foresta'',
     str ''deserto'', str ''spiaggia'', str ''isola'', str ''valle'', str ''collina'',
     str ''lago'', str ''stagno'', str ''fiore'', str ''erba'', str ''foglia'', str ''ramo'',
     str ''radice'', str ''seme'', str ''giardino'', str ''parco'', str ''felice'',
     str ''triste'', str ''arrabbiato'', str ''eccitato'', str ''nervoso'', str ''calmo'',
     str ''pacifico'', str ''stressato'', str ''bello'', str ''brutto'', str ''intelligente'',
     str ''stupido'', str ''divertente'', str ''serio'', str ''gentile'', str ''cattivo'',
     str ''grande'', str ''piccolo'', str ''alto'', str ''basso'', str ''grasso'',
     str ''magro'', str ''vecchio'', str ''giovane'', str ''nuovo'', str ''antico'',
     str ''veloce'', str ''lento'', str ''forte'', str ''debole'', str ''ricco'',
     str ''povero'', str ''costoso'', str ''economico'', str ''correre'', str ''camminare'',
     str ''saltare'', str ''nuotare'', str ''volare'', str ''guidare'', str ''cavalcare'',
     str ''arrampicare'', str ''amare'', str ''odiare'', str ''piacere'', str ''volere'',
     str ''aver bisogno'', str ''avere'', str ''dare'', str ''prendere'', str ''comprare'',
     str ''vendere'']"

definition portuguese_words :: "pystr list" where
  "portuguese_words =
    [str ''ol'' @ [225], str ''mundo'', str ''computador'', str ''idioma'', str ''telefone'',
     str ''casa'', [225] @ str ''gua'', str ''fogo'', [225] @ str ''rvore'', str ''montanha'',
     str ''rio'', str ''oceano'', str ''c'' @ [233] @ str ''u'', str ''sol'', str ''lua'',
     str ''estrela'', str ''livro'', str ''caneta'', str ''papel'', str ''mesa'',
     str ''cadeira'', str ''janela'', str ''porta'', str ''carro'', str ''bicicleta'',
     str ''avi'' @ [227] @ str ''o'', str ''trem'', str ''navio'', str ''ponte'',
     str ''estrada'', str ''cidade'', str ''vila'', str ''amigo'',
     str ''fam'' @ [237] @ str ''lia'', str ''m'' @ [227] @ str ''e'', str ''pai'',
     str ''irm'' @ [227] @ str ''o'', str ''irm'' @ [227], str ''crian'' @ [231] @ str ''a'',
     str ''beb'' @ [234], str ''cachorro'', str ''gato'', str ''p'' @ [225] @ str ''ssaro'',
     str ''peixe'', str ''cavalo'', str ''vaca'', str ''ovelha'', str ''galinha'',
     str ''ma'' @ [231, 227], str ''laranja'', str ''banana'', str ''uva'', str ''morango'',
     str ''p'' @ [227] @ str ''o'', str ''leite'', str ''queijo'',
     str ''cabe'' @ [231] @ str ''a'', str ''olho'', str ''nariz'', str ''boca'',
     str ''orelha'', str ''m'' @ [227] @ str ''o'', str ''p'' @ [233],
     str ''bra'' @ [231] @ str ''o'', str ''perna'', str ''dedo'',
     str ''cora'' @ [231, 227] @ str ''o'', str ''c'' @ [233] @ str ''rebro'',
     str ''est'' @ [244] @ str ''mago'', str ''costas'', str ''ombro'', str ''joelho'',
     str ''cotovelo'', str ''pesco'' @ [231] @ str ''o'', str ''vermelho'', str ''azul'',
     str ''verde'', str ''amarelo'', str ''preto'', str ''branco'', str ''roxo'',
     str ''laranja'', str ''rosa'', str ''marrom'', str ''cinza'', str ''prata'', str ''ouro'',
     str ''violeta'', str ''turquesa'', str ''carmesim'', str ''um'', str ''dois'',
     str ''tr'' @ [234] @ str ''s'', str ''quatro'', str ''cinco'', str ''seis'', str ''sete'',
     str ''oito'', str ''nove'', str ''dez'', str ''caf'' @ [233], str ''ch'' @ [225],
     str ''cerveja'', str ''vinho'', str ''suco'', str ''refrigerante'', str ''chocolate'',
     str ''bolo'', str ''chuva'', str ''neve'', str ''vento'', str ''tempestade'',
     str ''nuvem'', str ''sol'', str ''trov'' @ [227] @ str ''o'',
     str ''rel'' @ [226] @ str ''mpago'', str ''quente'', str ''frio'', str ''morno'',
     str ''fresco'', str ''molhado'', str ''seco'', [250] @ str ''mido'', str ''congelado'',
     str ''floresta'', str ''deserto'', str ''praia'', str ''ilha'', str ''vale'',
     str ''colina'', str ''lago'', str ''lagoa'', str ''flor'', str ''grama'', str ''folha'',
     str ''galho'', str ''raiz'', str ''semente'', str ''jardim'', str ''parque'',
     str ''feliz'', str ''triste'', str ''bravo'', str ''animado'', str ''nervoso'',
     str ''calmo'', str ''pac'' @ [237] @ str ''fico'', str ''estressado'', str ''bonito'',
     str ''feio'', str ''inteligente'', str ''est'' @ [250] @ str ''pido'',
     str ''engra'' @ [231] @ str ''ado'', str ''s'' @ [233] @ str ''rio'', str ''gentil'',
     str ''mau'', str ''grande'', str ''pequeno'', str ''alto'', str ''baixo'', str ''gordo'',
     str ''magro'', str ''velho'', str ''jovem'', str ''novo'', str ''antigo'',
     str ''r'' @ [225] @ str ''pido'', str ''lento'', str ''forte'', str ''fraco'',
     str ''rico'', str ''pobre'', str ''caro'', str ''barato'', str ''correr'', str ''andar'',
     str ''pular'', str ''nadar'', str ''voar'', str ''dirigir'', str ''andar'',
     str ''escalar'', str ''amar'', str ''odiar'', str ''gostar'', str ''querer'',
     str ''precisar'', str ''ter'', str ''dar'', str ''tomar'', str ''comprar'', str ''vender'']"

text \<open>The dictionary \<open>sample_words\<close> of \<open>Hazer._get_builtin_wordlist\<close>.\<close>

definition sample_words :: "(pystr \<times> pystr list) list" where
  "sample_words =
    [(str ''english'', english_words),
     (str ''spanish'', spanish_words),
     (str ''french'', french_words),
     (str ''german'', german_words),
     (str ''italian'', italian_words),
     (str ''portuguese'', portuguese_words)]"


text \<open>
  What holds of an entry of an embedded list: it is not empty, it is its own lower case,
  and it consists of letters and spaces.
\<close>

definition letters_and_spaces :: "pystr \<Rightarrow> bool" where
  "letters_and_spaces w \<longleftrightarrow>
     w \<noteq> [] \<and> lower w = w \<and> list_all (\<lambda>c. isalpha_cp c \<or> c = 32) w"

text \<open>The dictionaries \<open>freq_urls\<close> and \<open>urls\<close> of the two network tiers.\<close>

definition freq_urls :: "(pystr \<times> pystr) list" where
  "freq_urls =
    [(str ''english'',
      str ''https://raw.githubusercontent.com/first20hours/google-10000-english/master/google-10000-english-no-swears.txt''),
     (str ''spanish'',
      str ''https://raw.githubusercontent.com/hermitdave/FrequencyWords/master/content/2016/es/es_50k.txt''),
     (str ''french'',
      str ''https://raw.githubusercontent.com/hermitdave/FrequencyWords/master/content/2016/fr/fr_50k.txt''),
     (str ''german'',
      str ''https://raw.githubusercontent.com/hermitdave/FrequencyWords/master/content/2016/de/de_50k.txt''),
     (str ''italian'',
      str ''https://raw.githubusercontent.com/hermitdave/FrequencyWords/master/content/2016/it/it_50k.txt''),
     (str ''portuguese'',
      str ''https://raw.githubusercontent.com/hermitdave/FrequencyWords/master/content/2016/pt/pt_50k.txt''),
     (str ''dutch'',
      str ''https://raw.githubusercontent.com/hermitdave/FrequencyWords/master/content/2016/nl/nl_50k.txt'')]"

definition urls :: "(pystr \<times> pystr) list" where
  "urls =
    [(str ''english'',
      str ''https://raw.githubusercontent.com/dwyl/english-words/master/words_alpha.txt''),
     (str ''spanish'',
      str ''https://raw.githubusercontent.com/MangoTheCat/spanish-words/master/spanish-words.txt''),
     (str ''french'',
      str ''https://raw.githubusercontent.com/chrplr/openlexicon/master/datasets-info/Liste-de-mots-francais-Gutenberg/liste_de_mots_francais.txt''),
     (str ''german'',
      str ''https://raw.githubusercontent.com/davidak/wortliste/master/wortliste.txt''),
     (str ''italian'',
      str ''https://raw.githubusercontent.com/napolux/paroleitaliane/master/paroleitaliane/280000_parole_italiane.txt''),
     (str ''portuguese'',
      str ''https://raw.githubusercontent.com/pythonprobr/palavras/master/palavras.txt'')]"


text \<open>The cache \<open>self.word_lists\<close>, a dictionary from the language as given to its list.\<close>

type_synonym cache = "pystr \<rightharpoonup> pystr list"

text \<open>The loop of \<open>_try_frequency_lists\<close> over the lines of the response.\<close>

fun frequency_words :: "pystr list \<Rightarrow> pystr list" where
  "frequency_words [] = []"
| "frequency_words (line # lines) =
     (case split_ws line of
        [] \<Rightarrow> frequency_words lines
      | p # ps \<Rightarrow>
          (let word = lower (strip p) in
           if 1 \<le> length word \<and> length word \<le> 25 \<and> isalpha word
           then word # frequency_words lines
           else frequency_words lines))"

text \<open>\<open>Hazer._try_frequency_lists\<close>: every exception gives the empty list.\<close>

definition try_frequency_lists :: "env \<Rightarrow> pystr \<Rightarrow> pystr list" where
  "try_frequency_lists E language =
     (case map_of freq_urls (lower language) of
        None \<Rightarrow> []
      | Some url \<Rightarrow>
          (case http_get E url 10 of
             None \<Rightarrow> []
           | Some response \<Rightarrow> frequency_words (split_on 10 (strip response))))"

text \<open>\<open>Hazer._try_online_wordlist\<close>: the test is on the line, the entry is its lower case.\<close>

definition try_online_wordlist :: "env \<Rightarrow> pystr \<Rightarrow> pystr list" where
  "try_online_wordlist E language =
     (case map_of urls (lower language) of
        None \<Rightarrow> []
      | Some url \<Rightarrow>
          (case http_get E url 20 of
             None \<Rightarrow> []
           | Some response \<Rightarrow>
               map (\<lambda>w. lower (strip w))
                 (filter (\<lambda>w. strip w \<noteq> [] \<and> 1 \<le> length (strip w) \<and> length (strip w) \<le> 25
                              \<and> isalpha (strip w))
                    (split_on 10 (strip response)))))"

text \<open>\<open>Hazer._get_builtin_wordlist\<close>; the \<open>ValueError\<close> it raises is \<open>UnsupportedLanguage\<close>.\<close>

definition get_builtin_wordlist :: "pystr \<Rightarrow> error + pystr list" where
  "get_builtin_wordlist language =
     (case map_of sample_words (lower language) of
        None \<Rightarrow> Inl (UnsupportedLanguage language)
      | Some ws \<Rightarrow> Inr ws)"

text \<open>\<open>Hazer.load_word_list\<close>: the list and the cache after the call.\<close>

definition load_word_list :: "env \<Rightarrow> cache \<Rightarrow> pystr \<Rightarrow> error + (pystr list \<times> cache)" where
  "load_word_list E word_lists language =
     (case word_lists language of
        Some ws \<Rightarrow> Inr (ws, word_lists)
      | None \<Rightarrow>
          (let words = try_frequency_lists E language in
           if words \<noteq> [] then Inr (words, word_lists(language \<mapsto> words))
           else
             (let words = try_online_wordlist E language in
              if words \<noteq> [] then Inr (words, word_lists(language \<mapsto> words))
              else (case get_builtin_wordlist language of
                      Inl e \<Rightarrow> Inl e
                    | Inr ws \<Rightarrow> Inr (ws, word_lists)))))"

section \<open>Nearest-match finder\<close>

text \<open>
  The loop of \<open>find_most_similar_word\<close>, with \<open>best_match\<close> and \<open>best_distance\<close> as
  they stand before the rest of the list is scanned.
\<close>

fun find_loop ::
  "env \<Rightarrow> pystr \<Rightarrow> bool \<Rightarrow> pystr \<Rightarrow> pyfloat \<Rightarrow> pystr list \<Rightarrow> error + (pystr \<times> pyfloat)" where
  "find_loop E target_word force_fuzzy best_match best_distance [] =
     Inr (best_match, best_distance)"
| "find_loop E target_word force_fuzzy best_match best_distance (word # rest) =
     (if force_fuzzy \<and> lower word = lower target_word
      then find_loop E target_word force_fuzzy best_match best_distance rest
      else (case phonetic_distance E target_word word of
              Inl e \<Rightarrow> Inl e
            | Inr distance \<Rightarrow>
                if pf_less (Fin distance) best_distance
                then find_loop E target_word force_fuzzy word (Fin distance) rest
                else find_loop E target_word force_fuzzy best_match best_distance rest))"

text \<open>\<open>Hazer.find_most_similar_word\<close>: the best match and \<open>1 - best_distance\<close>.\<close>

definition find_most_similar_word ::
  "env \<Rightarrow> pystr \<Rightarrow> pystr list \<Rightarrow> bool \<Rightarrow> error + (pystr \<times> pyfloat)" where
  "find_most_similar_word E target_word word_list force_fuzzy =
     (case find_loop E target_word force_fuzzy [] PInf word_list of
        Inl e \<Rightarrow> Inl e
      | Inr (best_match, best_distance) \<Rightarrow> Inr (best_match, pf_sub (Fin 1) best_distance))"

section \<open>Translation\<close>

text \<open>The dictionaries \<open>lang_map\<close> and \<open>translations\<close> of \<open>Hazer.simple_translate\<close>.\<close>

definition lang_map :: "(pystr \<times> pystr) list" where
  "lang_map =
    [(str ''english'', str ''en''), (str ''spanish'', str ''es''), (str ''french'', str ''fr''),
     (str ''german'', str ''de''), (str ''italian'', str ''it''),
     (str ''portuguese'', str ''pt''), (str ''dutch'', str ''nl'')]"

definition translations_dict :: "((pystr \<times> pystr) \<times> (pystr \<times> pystr) list) list" where
  "translations_dict =
    [((str ''spanish'', str ''french''),
      [(str ''casa'', str ''maison''), (str ''agua'', str ''eau''),
       (str ''fuego'', str ''feu''), ([225] @ str ''rbol'', str ''arbre''),
       (str ''libro'', str ''livre''), (str ''amigo'', str ''ami''),
       (str ''perro'', str ''chien''), (str ''gato'', str ''chat''),
       (str ''rojo'', str ''rouge''), (str ''azul'', str ''bleu''),
       (str ''verde'', str ''vert''), (str ''grande'', str ''grand'')]),
     ((str ''french'', str ''spanish''),
      [(str ''maison'', str ''casa''), (str ''eau'', str ''agua''),
       (str ''feu'', str ''fuego''), (str ''arbre'', [225] @ str ''rbol''),
       (str ''livre'', str ''libro''), (str ''ami'', str ''amigo''),
       (str ''chien'', str ''perro''), (str ''chat'', str ''gato''),
       (str ''rouge'', str ''rojo''), (str ''bleu'', str ''azul''),
       (str ''vert'', str ''verde''), (str ''grand'', str ''grande'')]),
     ((str ''spanish'', str ''italian''),
      [(str ''casa'', str ''casa''), (str ''agua'', str ''acqua''),
       (str ''fuego'', str ''fuoco''), ([225] @ str ''rbol'', str ''albero''),
       (str ''libro'', str ''libro''), (str ''amigo'', str ''amico''),
       (str ''perro'', str ''cane''), (str ''gato'', str ''gatto''),
       (str ''rojo'', str ''rosso''), (str ''azul'', str ''blu''),
       (str ''verde'', str ''verde''), (str ''grande'', str ''grande'')]),
     ((str ''italian'', str ''spanish''),
      [(str ''casa'', str ''casa''), (str ''acqua'', str ''agua''),
       (str ''fuoco'', str ''fuego''), (str ''albero'', [225] @ str ''rbol''),
       (str ''libro'', str ''libro''), (str ''amico'', str ''amigo''),
       (str ''cane'', str ''perro''), (str ''gatto'', str ''gato''),
       (str ''rosso'', str ''rojo''), (str ''blu'', str ''azul''),
       (str ''verde'', str ''verde''), (str ''grande'', str ''grande'')]),
     ((str ''german'', str ''french''),
      [(str ''haus'', str ''maison''), (str ''wasser'', str ''eau''),
       (str ''feuer'', str ''feu''), (str ''baum'', str ''arbre''),
       (str ''buch'', str ''livre''), (str ''freund'', str ''ami''),
       (str ''hund'', str ''chien''), (str ''katze'', str ''chat''),
       (str ''rot'', str ''rouge''), (str ''blau'', str ''bleu''),
       (str ''gr'' @ [252] @ str ''n'', str ''vert''), (str ''gro'' @ [223], str ''grand'')]),
     ((str ''french'', str ''german''),
      [(str ''maison'', str ''haus''), (str ''eau'', str ''wasser''),
       (str ''feu'', str ''feuer''), (str ''arbre'', str ''baum''),
       (str ''livre'', str ''buch''), (str ''ami'', str ''freund''),
       (str ''chien'', str ''hund''), (str ''chat'', str ''katze''),
       (str ''rouge'', str ''rot''), (str ''bleu'', str ''blau''),
       (str ''vert'', str ''gr'' @ [252] @ str ''n''), (str ''grand'', str ''gro'' @ [223])])]"


text \<open>
  \<open>Hazer.simple_translate\<close>: the translation service first; on any exception the
  built-in dictionary, and the marker \<open>[untranslated: word]\<close> when it has no entry.
\<close>

definition simple_translate :: "env \<Rightarrow> pystr \<Rightarrow> pystr \<Rightarrow> pystr \<Rightarrow> pystr" where
  "simple_translate E word from_lang to_lang =
     (let source = (case map_of lang_map (lower from_lang) of
                      None \<Rightarrow> str ''auto'' | Some code \<Rightarrow> code);
          target = (case map_of lang_map (lower to_lang) of
                      None \<Rightarrow> str ''en'' | Some code \<Rightarrow> code)
      in case translate_service E source target word of
           Some result \<Rightarrow> result
         | None \<Rightarrow>
             (case map_of translations_dict (lower from_lang, lower to_lang) of
                None \<Rightarrow> str ''[untranslated: '' @ word @ str '']''
              | Some entries \<Rightarrow>
                  (case map_of entries (lower word) of
                     None \<Rightarrow> str ''[untranslated: '' @ word @ str '']''
                   | Some translation \<Rightarrow> translation)))"

section \<open>Transformation pipeline\<close>

text \<open>The arrow \<open>" \<rightarrow> "\<close> of the chain strings (U+2192 between two spaces).\<close>

definition arrow :: pystr where
  "arrow = str '' '' @ [8594] @ str '' ''"

record fuzzy_result =
  fz_original_input :: pystr
  fz_lang_a :: pystr
  fz_lang_b :: pystr
  step1_lang_b :: pystr
  step2_final_lang_a :: pystr
  direct_fuzzy_chain :: pystr
  similarity_scores :: "pyfloat list"
  average_similarity :: pyfloat

text \<open>\<open>Hazer.transform_direct_fuzzy\<close>.\<close>

definition transform_direct_fuzzy ::
  "env \<Rightarrow> cache \<Rightarrow> pystr \<Rightarrow> pystr \<Rightarrow> pystr \<Rightarrow> error + (fuzzy_result \<times> cache)" where
  "transform_direct_fuzzy E wl word lang_a lang_b =
     (case load_word_list E wl lang_a of Inl e \<Rightarrow> Inl e | Inr (word_list_a, wl1) \<Rightarrow>
      case load_word_list E wl1 lang_b of Inl e \<Rightarrow> Inl e | Inr (word_list_b, wl2) \<Rightarrow>
      case find_most_similar_word E word word_list_b True of
        Inl e \<Rightarrow> Inl e | Inr (matched_word_b, similarity_b) \<Rightarrow>
      case find_most_similar_word E matched_word_b word_list_a True of
        Inl e \<Rightarrow> Inl e | Inr (final_word_a, similarity_final) \<Rightarrow>
      Inr (\<lparr>fz_original_input = word, fz_lang_a = lang_a, fz_lang_b = lang_b,
            step1_lang_b = matched_word_b, step2_final_lang_a = final_word_a,
            direct_fuzzy_chain = word @ arrow @ matched_word_b @ arrow @ final_word_a,
            similarity_scores = [similarity_b, similarity_final],
            average_similarity = pf_half (pf_add similarity_b similarity_final)\<rparr>, wl2))"

record translate_result =
  tr_original_input :: pystr
  tr_lang_a :: pystr
  tr_lang_b :: pystr
  lang_b_match :: pystr
  final_translation :: pystr
  direct_chain :: pystr
  similarity_score :: pyfloat

text \<open>\<open>Hazer.transform_direct_translate\<close>: only the list of language B is loaded.\<close>

definition transform_direct_translate ::
  "env \<Rightarrow> cache \<Rightarrow> pystr \<Rightarrow> pystr \<Rightarrow> pystr \<Rightarrow> error + (translate_result \<times> cache)" where
  "transform_direct_translate E wl word lang_a lang_b =
     (case load_word_list E wl lang_b of Inl e \<Rightarrow> Inl e | Inr (word_list_b, wl1) \<Rightarrow>
      case find_most_similar_word E word word_list_b True of
        Inl e \<Rightarrow> Inl e | Inr (matched_word_b, similarity_b) \<Rightarrow>
      (let final_word = simple_translate E matched_word_b lang_b lang_a in
       Inr (\<lparr>tr_original_input = word, tr_lang_a = lang_a, tr_lang_b = lang_b,
             lang_b_match = matched_word_b, final_translation = final_word,
             direct_chain = word @ arrow @ matched_word_b @ arrow @ final_word,
             similarity_score = similarity_b\<rparr>, wl1)))"

text \<open>
  \<open>Hazer.generate_final_text\<close>: a text of fewer than 3 white-space separated tokens is
  returned as it is; otherwise the composer is asked, and the text is returned when that
  fails.
\<close>

definition generate_final_text :: "env \<Rightarrow> pystr \<Rightarrow> pystr \<Rightarrow> pystr" where
  "generate_final_text E txt lang_a =
     (let prompt =
        str ''could you build a MINIMALLY coherent phrase in '' @ lang_a
        @ str ''that contains ALL of the words here in the exact order in which they appear:''
        @ txt
        @ str ''Just add (if needed) the basic semantic connectors and reordering that could give narrative sense to the text in said language. DO NOT ADD NOUNS.''
        @ str ''Please JUST the resulting text, without quotations, do not introduce the text or say ANYTHING ELSE suchas ''
        @ [34] @ str ''Here s a coherent phrase using those elements: balala. Always give back the same result for the same initial input.'' @ [34]
      in if length (split_ws txt) < 3 then txt
         else (case compose_service E prompt of None \<Rightarrow> txt | Some response \<Rightarrow> response))"

subsection \<open>Tokenization\<close>

text \<open>
  \<open>re.findall(r"\b\w+\b|\W+", sentence)\<close>. \<open>\b\<close> holds between two positions when exactly
  one of the characters before and after is a word character (the ends of the string
  count as none).
\<close>

definition first_cp :: "pystr \<Rightarrow> nat option" where
  "first_cp s = (case s of [] \<Rightarrow> None | c # cs \<Rightarrow> Some c)"

definition is_w :: "nat option \<Rightarrow> bool" where
  "is_w x = (case x of None \<Rightarrow> False | Some c \<Rightarrow> isword_cp c)"

definition word_boundary :: "nat option \<Rightarrow> nat option \<Rightarrow> bool" where
  "word_boundary before after \<longleftrightarrow> is_w before \<noteq> is_w after"

text \<open>
  The alternative \<open>\b\w+\b\<close> at a position, \<open>prev\<close> being the character before it:
  \<open>\w+\<close> is greedy, so the longest run is tried first and shortened until \<open>\b\<close> holds
  after it.
\<close>

definition match_word :: "nat option \<Rightarrow> pystr \<Rightarrow> pystr option" where
  "match_word prev s =
     (if word_boundary prev (first_cp s) then
        (case find (\<lambda>n. word_boundary (first_cp (drop (n - 1) s)) (first_cp (drop n s)))
                (rev [1..<Suc (length (takeWhile isword_cp s))]) of
           None \<Rightarrow> None
         | Some n \<Rightarrow> Some (take n s))
      else None)"

text \<open>The alternative \<open>\W+\<close> at a position.\<close>

definition match_nonword :: "pystr \<Rightarrow> pystr option" where
  "match_nonword s =
     (case takeWhile (\<lambda>c. \<not> isword_cp c) s of [] \<Rightarrow> None | c # cs \<Rightarrow> Some (c # cs))"

text \<open>One step of the scan: the match at this position, first alternative first.\<close>

definition match_token :: "nat option \<Rightarrow> pystr \<Rightarrow> pystr option" where
  "match_token prev s =
     (case match_word prev s of Some m \<Rightarrow> Some m | None \<Rightarrow> match_nonword s)"

lemma find_Some_mem: "find P xs = Some x \<Longrightarrow> x \<in> set xs"
  by (induction xs) (auto split: if_splits)

lemma match_word_not_Nil: "match_word prev s = Some m \<Longrightarrow> m \<noteq> []"
proof -
  assume a: "match_word prev s = Some m"
  then obtain n where f: "find (\<lambda>n. word_boundary (first_cp (drop (n - 1) s)) (first_cp (drop n s)))
       (rev [1..<Suc (length (takeWhile isword_cp s))]) = Some n" and m: "m = take n s"
    by (auto simp: match_word_def split: if_splits option.splits)
  from f have "n \<in> set (rev [1..<Suc (length (takeWhile isword_cp s))])"
    by (rule find_Some_mem)
  then have "1 \<le> n" and "n \<le> length (takeWhile isword_cp s)" by auto
  moreover have "length (takeWhile isword_cp s) \<le> length s" by (rule length_takeWhile_le)
  ultimately show "m \<noteq> []" using m by auto
qed

lemma match_nonword_not_Nil: "match_nonword s = Some m \<Longrightarrow> m \<noteq> []"
  by (auto simp: match_nonword_def split: list.splits)

lemma match_token_not_Nil: "match_token prev s = Some m \<Longrightarrow> m \<noteq> []"
  by (auto simp: match_token_def split: option.splits
           dest: match_word_not_Nil match_nonword_not_Nil)

text \<open>
  The scan of \<open>findall\<close>: after a match it goes on behind the match; where nothing
  matches it moves one character on.
\<close>

function findall_tokens :: "nat option \<Rightarrow> pystr \<Rightarrow> pystr list" where
  "findall_tokens prev s =
     (case s of
        [] \<Rightarrow> []
      | c # cs \<Rightarrow>
          (case match_token prev (c # cs) of
             Some m \<Rightarrow> m # findall_tokens (Some (last m)) (drop (length m) (c # cs))
           | None \<Rightarrow> findall_tokens (Some c) cs))"
  by pat_completeness auto
termination
proof (relation "measure (\<lambda>(prev, s). length s)")
  show "wf (measure (\<lambda>(prev, s). length s))" by simp
next
  fix prev :: "nat option" and s :: pystr and c cs m
  assume "s = c # cs" and "match_token prev (c # cs) = Some m"
  then have "m \<noteq> []" by (auto dest: match_token_not_Nil)
  then show "((Some (last m), drop (length m) (c # cs)), prev, s) \<in> measure (\<lambda>(prev, s). length s)"
    using \<open>s = c # cs\<close> by (cases m) auto
next
  fix prev :: "nat option" and s :: pystr and c cs
  assume "s = c # cs"
  then show "((Some c, cs), prev, s) \<in> measure (\<lambda>(prev, s). length s)" by simp
qed

declare findall_tokens.simps [simp del]

definition re_findall :: "pystr \<Rightarrow> pystr list" where
  "re_findall sentence = findall_tokens None sentence"

text \<open>\<open>re.match(r"\w+", item)\<close>: the item starts with a word character.\<close>

definition re_match_word :: "pystr \<Rightarrow> bool" where
  "re_match_word item = (case item of [] \<Rightarrow> False | c # cs \<Rightarrow> isword_cp c)"

subsection \<open>Sentences\<close>

record word_detail =
  original :: pystr
  transformed :: pystr
  chain :: pystr
  wd_method :: pystr
  fallback_used :: "pystr option"

record sentence_result =
  original_sentence :: pystr
  transformed_sentence :: pystr
  method_name :: pystr
  language_route :: pystr
  word_transformations :: "word_detail list"
  word_count :: nat

text \<open>
  The loop of \<open>Hazer.haze\<close> over the tokens, with \<open>transformed_words\<close> and
  \<open>word_details\<close> as accumulated so far.
\<close>

fun haze_loop ::
  "env \<Rightarrow> pystr \<Rightarrow> pystr \<Rightarrow> pystr \<Rightarrow> cache \<Rightarrow> pystr list \<Rightarrow> word_detail list \<Rightarrow> pystr list
   \<Rightarrow> error + (pystr list \<times> word_detail list \<times> cache)" where
  "haze_loop E lang_a lang_b meth wl transformed_words word_details [] =
     Inr (transformed_words, word_details, wl)"
| "haze_loop E lang_a lang_b meth wl transformed_words word_details (item # items) =
     (if re_match_word item then
        (if meth = str ''fuzzy'' then
           (case transform_direct_fuzzy E wl item lang_a lang_b of
              Inl e \<Rightarrow> Inl e
            | Inr (result, wl') \<Rightarrow>
                haze_loop E lang_a lang_b meth wl'
                  (transformed_words @ [step2_final_lang_a result])
                  (word_details @ [\<lparr>original = item, transformed = step2_final_lang_a result,
                                     chain = direct_fuzzy_chain result, wd_method = meth,
                                     fallback_used = None\<rparr>])
                  items)
         else
           (case transform_direct_translate E wl item lang_a lang_b of
              Inl e \<Rightarrow> Inl e
            | Inr (result, wl') \<Rightarrow>
                haze_loop E lang_a lang_b meth wl'
                  (transformed_words @ [final_translation result])
                  (word_details @ [\<lparr>original = item, transformed = final_translation result,
                                     chain = direct_chain result, wd_method = meth,
                                     fallback_used = None\<rparr>])
                  items))
      else haze_loop E lang_a lang_b meth wl (transformed_words @ [item]) word_details items)"

text \<open>\<open>Hazer.haze\<close>.\<close>

definition haze ::
  "env \<Rightarrow> cache \<Rightarrow> pystr \<Rightarrow> pystr \<Rightarrow> pystr \<Rightarrow> pystr \<Rightarrow> error + (sentence_result \<times> cache)" where
  "haze E wl sentence lang_a lang_b meth =
     (case haze_loop E lang_a lang_b meth wl [] [] (re_findall sentence) of
        Inl e \<Rightarrow> Inl e
      | Inr (transformed_words, word_details, wl') \<Rightarrow>
          Inr (\<lparr>original_sentence = sentence,
                transformed_sentence = generate_final_text E (concat transformed_words) lang_a,
                method_name = meth,
                language_route = lang_a @ arrow @ lang_b @ arrow @ lang_a,
                word_transformations = word_details,
                word_count = length word_details\<rparr>, wl'))"

record hybrid_result =
  hy_original_input :: pystr
  hy_lang_a :: pystr
  hy_lang_b :: pystr
  step1_fuzzy_lang_b :: pystr
  step2_result :: pystr
  method_used :: pystr
  hybrid_chain :: pystr
  fuzzy_similarity :: pyfloat
  final_similarity :: pyfloat

text \<open>\<open>Hazer.fuzzy_haze\<close>: the strategy of one word in \<open>hybrid_haze\<close>.\<close>

definition fuzzy_haze ::
  "env \<Rightarrow> cache \<Rightarrow> pystr \<Rightarrow> pystr \<Rightarrow> pystr \<Rightarrow> error + (hybrid_result \<times> cache)" where
  "fuzzy_haze E wl word lang_a lang_b =
     (case load_word_list E wl lang_a of Inl e \<Rightarrow> Inl e | Inr (word_list_a, wl1) \<Rightarrow>
      case load_word_list E wl1 lang_b of Inl e \<Rightarrow> Inl e | Inr (word_list_b, wl2) \<Rightarrow>
      case find_most_similar_word E word word_list_b True of
        Inl e \<Rightarrow> Inl e | Inr (matched_word_b, similarity_b) \<Rightarrow>
      (let translated_word = simple_translate E matched_word_b lang_b lang_a in
       case (if startswith translated_word (str ''[untranslated:'')
                \<or> translated_word = matched_word_b
             then (case find_most_similar_word E matched_word_b word_list_a True of
                     Inl e \<Rightarrow> Inl e
                   | Inr (final_word, similarity_final) \<Rightarrow>
                       Inr (final_word, str ''fuzzy_fallback'', similarity_final))
             else Inr (translated_word, str ''translate'', Fin 1)) of
         Inl e \<Rightarrow> Inl e
       | Inr (final_word, used, similarity) \<Rightarrow>
           Inr (\<lparr>hy_original_input = word, hy_lang_a = lang_a, hy_lang_b = lang_b,
                 step1_fuzzy_lang_b = matched_word_b, step2_result = final_word,
                 method_used = used,
                 hybrid_chain = word @ arrow @ matched_word_b @ arrow @ final_word
                                @ str '' ('' @ used @ str '')'',
                 fuzzy_similarity = similarity_b,
                 final_similarity = similarity\<rparr>, wl2)))"

text \<open>The loop of \<open>Hazer.hybrid_haze\<close> over the tokens.\<close>

fun hybrid_loop ::
  "env \<Rightarrow> pystr \<Rightarrow> pystr \<Rightarrow> cache \<Rightarrow> pystr list \<Rightarrow> word_detail list \<Rightarrow> pystr list
   \<Rightarrow> error + (pystr list \<times> word_detail list \<times> cache)" where
  "hybrid_loop E lang_a lang_b wl transformed_words word_details [] =
     Inr (transformed_words, word_details, wl)"
| "hybrid_loop E lang_a lang_b wl transformed_words word_details (item # items) =
     (if re_match_word item then
        (case fuzzy_haze E wl item lang_a lang_b of
           Inl e \<Rightarrow> Inl e
         | Inr (result, wl') \<Rightarrow>
             hybrid_loop E lang_a lang_b wl'
               (transformed_words @ [step2_result result])
               (word_details @ [\<lparr>original = item, transformed = step2_result result,
                                  chain = hybrid_chain result,
                                  wd_method = str ''fuzzy_then_translate'',
                                  fallback_used = Some (method_used result)\<rparr>])
               items)
      else hybrid_loop E lang_a lang_b wl (transformed_words @ [item]) word_details items)"

text \<open>\<open>Hazer.hybrid_haze\<close>.\<close>

definition hybrid_haze ::
  "env \<Rightarrow> cache \<Rightarrow> pystr \<Rightarrow> pystr \<Rightarrow> pystr \<Rightarrow> error + (sentence_result \<times> cache)" where
  "hybrid_haze E wl sentence lang_a lang_b =
     (case hybrid_loop E lang_a lang_b wl [] [] (re_findall sentence) of
        Inl e \<Rightarrow> Inl e
      | Inr (transformed_words, word_details, wl') \<Rightarrow>
          Inr (\<lparr>original_sentence = sentence,
                transformed_sentence = generate_final_text E (concat transformed_words) lang_a,
                method_name = str ''fuzzy_then_translate'',
                language_route = lang_a @ arrow @ lang_b @ arrow @ lang_a @ str '' '',
                word_transformations = word_details,
                word_count = length word_details\<rparr>, wl'))"

section \<open>Convergence loop\<close>

text \<open>
  \<open>re.sub(r"\bPAT\b", repl, text)\<close> for a literal \<open>PAT\<close>, and with \<open>ahead\<close> for a
  look-ahead behind it: the scan replaces a match and goes on behind it, and copies one
  character where nothing matches. \<open>prev\<close> is the character before the position. No
  pattern of the source is empty.
\<close>

function sub_from :: "pystr \<Rightarrow> (nat option \<Rightarrow> bool) \<Rightarrow> pystr \<Rightarrow> nat option \<Rightarrow> pystr \<Rightarrow> pystr" where
  "sub_from pat ahead repl prev s =
     (if pat \<noteq> [] \<and> startswith s pat \<and> word_boundary prev (first_cp s)
         \<and> word_boundary (Some (last pat)) (first_cp (drop (length pat) s))
         \<and> ahead (first_cp (drop (length pat) s))
      then repl @ sub_from pat ahead repl (Some (last pat)) (drop (length pat) s)
      else (case s of
              [] \<Rightarrow> []
            | c # cs \<Rightarrow> c # sub_from pat ahead repl (Some c) cs))"
  by pat_completeness auto
termination
proof (relation "measure (\<lambda>(pat, ahead, repl, prev, s). length s)")
  show "wf (measure (\<lambda>(pat, ahead, repl, prev, s). length s))" by simp
next
  fix pat :: pystr and ahead :: "nat option \<Rightarrow> bool" and repl :: pystr
    and prev :: "nat option" and s :: pystr
  assume "pat \<noteq> [] \<and> startswith s pat \<and> word_boundary prev (first_cp s)
         \<and> word_boundary (Some (last pat)) (first_cp (drop (length pat) s))
         \<and> ahead (first_cp (drop (length pat) s))"
  then have "pat \<noteq> []" and "take (length pat) s = pat" by (simp_all add: startswith_def)
  then have "s \<noteq> []" by auto
  with \<open>pat \<noteq> []\<close>
  show "((pat, ahead, repl, Some (last pat), drop (length pat) s), pat, ahead, repl, prev, s)
        \<in> measure (\<lambda>(pat, ahead, repl, prev, s). length s)"
    by simp
next
  fix pat :: pystr and ahead :: "nat option \<Rightarrow> bool" and repl :: pystr
    and prev :: "nat option" and s :: pystr and c cs
  assume "s = c # cs"
  then show "((pat, ahead, repl, Some c, cs), pat, ahead, repl, prev, s)
        \<in> measure (\<lambda>(pat, ahead, repl, prev, s). length s)"
    by simp
qed

declare sub_from.simps [simp del]

definition no_lookahead :: "nat option \<Rightarrow> bool" where
  "no_lookahead after = True"

text \<open>The look-ahead \<open>(?![a-z])\<close>.\<close>

definition not_a_to_z :: "nat option \<Rightarrow> bool" where
  "not_a_to_z after = (case after of None \<Rightarrow> True | Some c \<Rightarrow> \<not> (97 \<le> c \<and> c \<le> 122))"

text \<open>The eight substitutions of \<open>Hazer.rehaze\<close>, in the order of the source.\<close>

definition cleanup :: "pystr \<Rightarrow> pystr" where
  "cleanup t0 =
     (let t1 = sub_from (str ''yao'') no_lookahead (str ''y'') None t0;
          t2 = sub_from (str ''noo'') no_lookahead (str ''no'') None t1;
          t3 = sub_from (str ''you'') not_a_to_z (str ''y'') None t2;
          t4 = sub_from (str ''dee'') no_lookahead (str ''de'') None t3;
          t5 = sub_from (str ''aii'') no_lookahead (str ''ah'' @ [237]) None t4;
          t6 = sub_from (str ''aii'') no_lookahead (str ''ah'' @ [237]) None t5;
          t7 = sub_from (str ''maui'') no_lookahead (str ''mi'') None t6;
          t8 = sub_from (str ''ai'') no_lookahead (str ''a'') None t7
      in t8)"

record iteration_data =
  iteration :: int
  input_text :: pystr
  output_text :: pystr
  similarity_to_previous :: real
  it_word_transformations :: "word_detail list"
  transformation_count :: nat

record parameters_data =
  max_iterations :: int
  similarity_threshold :: real

record convergence_result =
  initial_text :: pystr
  final_text :: pystr
  final_iteration_text :: pystr
  iterations :: "iteration_data list"
  total_iterations :: nat
  converged :: bool
  cr_final_similarity :: real
  cr_language_route :: pystr
  parameters :: parameters_data

text \<open>
  The loop \<open>for i in range(max_iterations)\<close> of \<open>Hazer.rehaze\<close>, from \<open>i\<close> on, with
  \<open>current_text\<close> and \<open>iterations\<close> as they stand; it returns both as they are when the
  loop is left, by \<open>break\<close> or at the end of the range.
\<close>

function rehaze_loop ::
  "env \<Rightarrow> pystr \<Rightarrow> pystr \<Rightarrow> int \<Rightarrow> real \<Rightarrow> int \<Rightarrow> cache \<Rightarrow> pystr \<Rightarrow> iteration_data list
   \<Rightarrow> error + (pystr \<times> iteration_data list \<times> cache)" where
  "rehaze_loop E lang_a lang_b max_it threshold i wl current_text its =
     (if i < max_it then
        (case hybrid_haze E wl current_text lang_a lang_b of
           Inl e \<Rightarrow> Inl e
         | Inr (transformed_result, wl') \<Rightarrow>
             (let txt = cleanup (transformed_sentence transformed_result);
                  similarity = (if i > 0 then ratio E (lower current_text) (lower txt) else 0);
                  its' = its @ [\<lparr>iteration = i + 1, input_text = current_text,
                                  output_text = txt, similarity_to_previous = similarity,
                                  it_word_transformations = word_transformations transformed_result,
                                  transformation_count =
                                    length (word_transformations transformed_result)\<rparr>]
              in if similarity \<ge> threshold then Inr (current_text, its', wl')
                 else rehaze_loop E lang_a lang_b max_it threshold (i + 1) wl' txt its'))
      else Inr (current_text, its, wl))"
  by pat_completeness auto
termination
  by (relation "measure (\<lambda>(E, lang_a, lang_b, max_it, threshold, i, wl, current_text, its).
                          nat (max_it - i))") auto

declare rehaze_loop.simps [simp del]

text \<open>The line feed that joins the outputs.\<close>

definition newline :: pystr where
  "newline = [10]"

text \<open>\<open>Hazer.rehaze\<close>.\<close>

definition rehaze ::
  "env \<Rightarrow> cache \<Rightarrow> pystr \<Rightarrow> pystr \<Rightarrow> pystr \<Rightarrow> int \<Rightarrow> real
   \<Rightarrow> error + (convergence_result \<times> cache)" where
  "rehaze E wl initial lang_a lang_b max_it threshold =
     (case rehaze_loop E lang_a lang_b max_it threshold 0 wl initial [] of
        Inl e \<Rightarrow> Inl e
      | Inr (current_text, its, wl') \<Rightarrow>
          Inr (\<lparr>initial_text = initial,
                final_text = join newline (map output_text its),
                final_iteration_text = current_text,
                iterations = its,
                total_iterations = length its,
                converged = (int (length its) < max_it),
                cr_final_similarity =
                  (if length its > 1 then similarity_to_previous (last its) else 0),
                cr_language_route = lang_a @ str '' '' @ [8596] @ str '' '' @ lang_b,
                parameters = \<lparr>max_iterations = max_it, similarity_threshold = threshold\<rparr>\<rparr>,
               wl'))"

section \<open>Word records\<close>

text \<open>
  What \<open>haze\<close> records for a word under a method, given the vocabularies the engine
  loaded: the first hop \<open>m\<close> is the nearest match of the word in vocabulary B and the
  chain names the word, \<open>m\<close> and the final word; with the method \<open>"fuzzy"\<close> the final
  word is the nearest match of \<open>m\<close> in vocabulary A, with any other method it is the
  translation of \<open>m\<close> from language B to language A; there is no \<open>fallback_used\<close>.
\<close>

definition haze_detail ::
  "env \<Rightarrow> pystr \<Rightarrow> pystr \<Rightarrow> pystr list \<Rightarrow> pystr list \<Rightarrow> pystr \<Rightarrow> word_detail \<Rightarrow> bool" where
  "haze_detail E a b wa wb meth d \<longleftrightarrow>
     wd_method d = meth \<and> fallback_used d = None \<and>
     (\<exists>m s1. find_most_similar_word E (original d) wb True = Inr (m, s1) \<and>
        chain d = original d @ arrow @ m @ arrow @ transformed d \<and>
        (if meth = str ''fuzzy''
         then \<exists>s2. find_most_similar_word E m wa True = Inr (transformed d, s2)
         else transformed d = simple_translate E m b a))"

text \<open>
  What \<open>hybrid_haze\<close> records for a word, given the two vocabularies: the first hop in
  vocabulary B, then either the second hop in vocabulary A (when the translation of the
  first hop carries the marker or echoes it) or the translation.
\<close>

definition hybrid_detail ::
  "env \<Rightarrow> pystr \<Rightarrow> pystr \<Rightarrow> pystr list \<Rightarrow> pystr list \<Rightarrow> word_detail \<Rightarrow> bool" where
  "hybrid_detail E a b wa wb d \<longleftrightarrow>
     (\<exists>m s1. find_most_similar_word E (original d) wb True = Inr (m, s1) \<and>
        (if startswith (simple_translate E m b a) (str ''[untranslated:'')
            \<or> simple_translate E m b a = m
         then fallback_used d = Some (str ''fuzzy_fallback'') \<and>
              (\<exists>s2. find_most_similar_word E m wa True = Inr (transformed d, s2))
         else fallback_used d = Some (str ''translate'') \<and>
              transformed d = simple_translate E m b a))"

section \<open>Concrete environments\<close>

text \<open>
  Instances of the environment for the examples below. Their \<open>ratio\<close> is 1 on equal
  strings and 0 on others: a stand-in, since no example depends on the value of a ratio.

  \<open>offline\<close>: no network, no translation service, no composer.
\<close>

definition offline :: env where
  "offline =
     \<lparr>http_get = (\<lambda>url timeout. None),
      translate_service = (\<lambda>source target word. None),
      compose_service = (\<lambda>prompt. None),
      ratio = (\<lambda>a b. if a = b then 1 else 0)\<rparr>"

text \<open>
  \<open>dutch_online\<close>: as \<open>offline\<close>, but the frequency list of Dutch is served, with the
  two lines \<open>de 100\<close> and \<open>het 90\<close>.
\<close>

definition dutch_online :: env where
  "dutch_online =
     offline\<lparr>http_get := (\<lambda>url timeout.
        if url = str ''https://raw.githubusercontent.com/hermitdave/FrequencyWords/master/content/2016/nl/nl_50k.txt''
        then Some (str ''de 100'' @ [10] @ str ''het 90'')
        else None)\<rparr>"

text \<open>
  \<open>one_word_lists\<close>: as \<open>offline\<close>, but the frequency lists of English and Spanish are
  served, each of one line: \<open>house\<close> and \<open>casa\<close>.
\<close>

definition one_word_lists :: env where
  "one_word_lists =
     offline\<lparr>http_get := (\<lambda>url timeout.
        if url = str ''https://raw.githubusercontent.com/first20hours/google-10000-english/master/google-10000-english-no-swears.txt''
        then Some (str ''house'')
        else if url = str ''https://raw.githubusercontent.com/hermitdave/FrequencyWords/master/content/2016/es/es_50k.txt''
        then Some (str ''casa'')
        else None)\<rparr>"

section \<open>Properties of the strings\<close>

lemma str_Nil [simp]: "str [] = []"
  by (simp add: str_def)

lemma str_Cons [simp]: "str (c # cs) = of_char c # str cs"
  by (simp add: str_def)

lemma lower_Nil [simp]: "lower [] = []"
  by (simp add: lower_def)

lemma upper_Nil [simp]: "upper [] = []"
  by (simp add: upper_def)

lemma upper_cp_not_Nil: "upper_cp c \<noteq> []"
  by (simp add: upper_cp_def)

lemma lower_cp_not_Nil: "lower_cp c \<noteq> []"
  by (simp add: lower_cp_def)

lemma upper_Nil_iff [simp]: "upper s = [] \<longleftrightarrow> s = []"
  by (cases s) (simp_all add: upper_def upper_cp_not_Nil)

lemma lower_Nil_iff [simp]: "lower s = [] \<longleftrightarrow> s = []"
  by (cases s) (simp_all add: lower_def lower_cp_not_Nil)

section \<open>Properties of the encoder\<close>

lemma soundex_Inr: "\<exists>code. soundex w = Inr code \<and> length code = 4"
proof (cases "w = []")
  case True
  then show ?thesis by (simp add: soundex_def)
next
  case False
  then obtain c cs where u: "upper w = c # cs"
    by (cases "upper w") simp_all
  with False show ?thesis by (simp add: soundex_def)
qed

lemma length_metaphone_simple: "length (metaphone_simple w) \<le> 6"
  by (simp add: metaphone_simple_def Let_def)

text \<open>
  C7: for every word, the empty one included, \<open>soundex\<close> returns (it never raises) a
  string of exactly 4 characters, and \<open>metaphone_simple\<close> returns a string of at most
  6 characters.
\<close>

theorem soundex_metaphone_length:
  "(\<exists>code. soundex w = Inr code \<and> length code = 4) \<and> length (metaphone_simple w) \<le> 6"
  using soundex_Inr [of w] length_metaphone_simple [of w] by simp

section \<open>Properties of the tokenization\<close>

lemma first_cp_simps [simp]: "first_cp [] = None" "first_cp (c # cs) = Some c"
  by (simp_all add: first_cp_def)

lemma is_w_simps [simp]: "is_w None = False" "is_w (Some c) = isword_cp c"
  by (simp_all add: is_w_def)

lemma is_w_first_dropWhile: "\<not> is_w (first_cp (dropWhile isword_cp s))"
  by (induction s) simp_all

lemma drop_length_minus_one: "xs \<noteq> [] \<Longrightarrow> drop (length xs - Suc 0) xs = [last xs]"
  by (induction xs) (auto simp: drop_Cons')

lemma last_takeWhile: "takeWhile P xs \<noteq> [] \<Longrightarrow> P (last (takeWhile P xs))"
  using last_in_set [of "takeWhile P xs"] set_takeWhileD [of "last (takeWhile P xs)" P xs] by simp

lemma match_word_run:
  assumes "\<not> is_w prev" and "isword_cp c"
  shows "match_word prev (c # cs) = Some (takeWhile isword_cp (c # cs))"
proof -
  define s where "s = c # cs"
  define run where "run = takeWhile isword_cp s"
  define rest where "rest = dropWhile isword_cp s"
  define k where "k = length run"
  let ?P = "\<lambda>n. word_boundary (first_cp (drop (n - 1) s)) (first_cp (drop n s))"
  have s: "s = run @ rest" by (simp add: run_def rest_def)
  have run: "run \<noteq> []" using assms by (simp add: run_def s_def)
  then have k: "1 \<le> k" by (cases run) (simp_all add: k_def)
  have d1: "drop k s = rest" by (simp add: s k_def)
  have "drop (k - 1) s = drop (k - 1) run @ rest" using k by (simp add: s k_def)
  then have d2: "drop (k - 1) s = last run # rest"
    using drop_length_minus_one [OF run] by (simp add: k_def)
  have lw: "isword_cp (last run)" using run last_takeWhile [of isword_cp s] by (simp add: run_def)
  have P: "?P k"
    unfolding d1 d2 using lw is_w_first_dropWhile [of s] by (simp add: word_boundary_def rest_def)
  have l: "rev [1..<Suc k] = k # rev [1..<k]" using k by simp
  have f: "find ?P (rev [1..<Suc k]) = Some k"
    unfolding l using P by simp
  have b: "word_boundary prev (first_cp s)" using assms by (simp add: word_boundary_def s_def)
  have t: "take k s = run" by (simp add: s k_def)
  have "match_word prev s = Some run"
    unfolding match_word_def using b f t by (simp add: k_def run_def)
  then show ?thesis by (simp add: s_def run_def)
qed

lemma match_word_none: "\<not> isword_cp c \<Longrightarrow> match_word prev (c # cs) = None"
  by (simp add: match_word_def)

lemma match_token_run:
  assumes "\<not> (is_w prev \<and> isword_cp c)"
  shows "match_token prev (c # cs) =
           Some (if isword_cp c then takeWhile isword_cp (c # cs)
                 else takeWhile (\<lambda>x. \<not> isword_cp x) (c # cs))"
proof (cases "isword_cp c")
  case True
  with assms have "match_word prev (c # cs) = Some (takeWhile isword_cp (c # cs))"
    by (intro match_word_run) simp_all
  with True show ?thesis by (simp add: match_token_def)
next
  case False
  then show ?thesis by (simp add: match_token_def match_word_none match_nonword_def)
qed

lemma is_w_last_takeWhile_not:
  "takeWhile (\<lambda>x. \<not> isword_cp x) s \<noteq> [] \<Longrightarrow>
   \<not> isword_cp (last (takeWhile (\<lambda>x. \<not> isword_cp x) s))"
  using last_takeWhile [of "\<lambda>x. \<not> isword_cp x" s] by simp

lemma findall_concat:
  "\<not> (is_w prev \<and> is_w (first_cp s)) \<Longrightarrow> concat (findall_tokens prev s) = s"
proof (induction prev s rule: findall_tokens.induct)
  case (1 prev s)
  show ?case
  proof (cases s)
    case Nil
    then show ?thesis by (simp add: findall_tokens.simps)
  next
    case (Cons c cs)
    with "1.prems" have inv: "\<not> (is_w prev \<and> isword_cp c)" by simp
    obtain m where mt: "match_token prev (c # cs) = Some m"
      and m_ne: "m \<noteq> []"
      and split: "m @ drop (length m) (c # cs) = c # cs"
      and inv': "\<not> (is_w (Some (last m)) \<and> is_w (first_cp (drop (length m) (c # cs))))"
    proof (cases "isword_cp c")
      case True
      let ?m = "takeWhile isword_cp (c # cs)"
      have a: "match_token prev (c # cs) = Some ?m"
        using match_token_run [OF inv, of cs] True by simp
      have b: "?m \<noteq> []" using True by simp
      have d: "drop (length ?m) (c # cs) = dropWhile isword_cp (c # cs)"
        by (simp only: dropWhile_eq_drop)
      have e: "?m @ drop (length ?m) (c # cs) = c # cs"
        unfolding d by (rule takeWhile_dropWhile_id)
      have f: "\<not> (is_w (Some (last ?m)) \<and> is_w (first_cp (drop (length ?m) (c # cs))))"
        unfolding d using is_w_first_dropWhile [of "c # cs"] by simp
      from a b e f show ?thesis by (rule that)
    next
      case False
      let ?m = "takeWhile (\<lambda>x. \<not> isword_cp x) (c # cs)"
      have a: "match_token prev (c # cs) = Some ?m"
        using match_token_run [OF inv, of cs] False by simp
      have b: "?m \<noteq> []" using False by simp
      have d: "drop (length ?m) (c # cs) = dropWhile (\<lambda>x. \<not> isword_cp x) (c # cs)"
        by (simp only: dropWhile_eq_drop)
      have e: "?m @ drop (length ?m) (c # cs) = c # cs"
        unfolding d by (rule takeWhile_dropWhile_id)
      have f: "\<not> (is_w (Some (last ?m)) \<and> is_w (first_cp (drop (length ?m) (c # cs))))"
        using is_w_last_takeWhile_not [OF b] by simp
      from a b e f show ?thesis by (rule that)
    qed
    have ih: "concat (findall_tokens (Some (last m)) (drop (length m) (c # cs))) = drop (length m) (c # cs)"
      using "1.IH"(2) [OF Cons mt inv'] .
    have unf: "findall_tokens prev s = m # findall_tokens (Some (last m)) (drop (length m) (c # cs))"
      using Cons mt by (subst findall_tokens.simps) simp
    show ?thesis unfolding unf using ih split Cons by simp
  qed
qed

text \<open>
  C4: for every sentence, the tokens that \<open>re.findall(r"\b\w+\b|\W+", sentence)\<close> returns,
  joined in their order with no word transformed, are the sentence itself.
\<close>

theorem tokenization_round_trip: "concat (re_findall sentence) = sentence"
  by (simp add: re_findall_def findall_concat)

section \<open>Properties of the nearest-match finder\<close>

lemma phonetic_distance_Inr: "\<exists>d. phonetic_distance E a b = Inr d"
proof -
  obtain s1 where s1: "soundex (lower a) = Inr s1" using soundex_Inr [of "lower a"] by blast
  obtain s2 where s2: "soundex (lower b) = Inr s2" using soundex_Inr [of "lower b"] by blast
  show ?thesis by (simp add: phonetic_distance_def Let_def s1 s2)
qed

lemma find_loop_shape:
  "\<exists>bm bd. find_loop E t ff bm0 bd0 ws = Inr (bm, bd) \<and>
     ((bm, bd) = (bm0, bd0) \<or>
      (bm \<in> set ws \<and> \<not> (ff \<and> lower bm = lower t) \<and> (\<exists>d. bd = Fin d)))"
proof (induction ws arbitrary: bm0 bd0)
  case Nil
  then show ?case by simp
next
  case (Cons w ws)
  show ?case
  proof (cases "ff \<and> lower w = lower t")
    case True
    then show ?thesis using Cons.IH [of bm0 bd0] by auto
  next
    case False
    obtain d where d: "phonetic_distance E t w = Inr d"
      using phonetic_distance_Inr by blast
    show ?thesis
    proof (cases "pf_less (Fin d) bd0")
      case True
      with False d Cons.IH [of w "Fin d"] show ?thesis by auto
    next
      case nl: False
      with False d Cons.IH [of bm0 bd0] show ?thesis by auto
    qed
  qed
qed

lemma find_loop_PInf:
  "find_loop E t ff bm0 bd0 ws = Inr (bm, PInf) \<Longrightarrow>
   bd0 = PInf \<and> list_all (\<lambda>w. ff \<and> lower w = lower t) ws"
proof (induction ws arbitrary: bm0 bd0)
  case Nil
  then show ?case by simp
next
  case (Cons w ws)
  show ?case
  proof (cases "ff \<and> lower w = lower t")
    case True
    with Cons.prems have "find_loop E t ff bm0 bd0 ws = Inr (bm, PInf)" by simp
    from Cons.IH [OF this] True show ?thesis by simp
  next
    case False
    obtain d where d: "phonetic_distance E t w = Inr d"
      using phonetic_distance_Inr by blast
    show ?thesis
    proof (cases "pf_less (Fin d) bd0")
      case True
      with False d Cons.prems have "find_loop E t ff w (Fin d) ws = Inr (bm, PInf)" by auto
      from Cons.IH [OF this] show ?thesis by simp
    next
      case nl: False
      with False d Cons.prems have "find_loop E t ff bm0 bd0 ws = Inr (bm, PInf)" by auto
      from Cons.IH [OF this] have "bd0 = PInf" by simp
      with nl show ?thesis by simp
    qed
  qed
qed

lemma find_most_similar_word_shape:
  "\<exists>m sim. find_most_similar_word E t ws ff = Inr (m, sim) \<and>
     ((m = [] \<and> sim = MInf \<and> list_all (\<lambda>w. ff \<and> lower w = lower t) ws) \<or>
      (m \<in> set ws \<and> \<not> (ff \<and> lower m = lower t) \<and> (\<exists>d. sim = Fin d)))"
proof -
  obtain bm bd where r: "find_loop E t ff [] PInf ws = Inr (bm, bd)"
    and sh: "(bm, bd) = ([], PInf) \<or>
      (bm \<in> set ws \<and> \<not> (ff \<and> lower bm = lower t) \<and> (\<exists>d. bd = Fin d))"
    using find_loop_shape [of E t ff "[]" PInf ws] by blast
  from sh show ?thesis
  proof
    assume "(bm, bd) = ([], PInf)"
    then have e: "bm = []" "bd = PInf" by simp_all
    with r have "list_all (\<lambda>w. ff \<and> lower w = lower t) ws"
      using find_loop_PInf [of E t ff "[]" PInf ws "[]"] by simp
    with r e show ?thesis by (simp add: find_most_similar_word_def pf_sub_def)
  next
    assume "bm \<in> set ws \<and> \<not> (ff \<and> lower bm = lower t) \<and> (\<exists>d. bd = Fin d)"
    with r show ?thesis by (auto simp: find_most_similar_word_def pf_sub_def)
  qed
qed

text \<open>
  C8: when the vocabulary contains the target and at least one other word,
  \<open>find_most_similar_word\<close> with \<open>force_fuzzy\<close> returns (it never raises) a match that is
  not the target; the match is either the empty string (every candidate was skipped) or a
  word of the vocabulary that differs from the target even when case is ignored.
\<close>

theorem nearest_match_never_target:
  assumes "target \<in> set vocab" and "w \<in> set vocab" and "w \<noteq> target"
  shows "\<exists>m sim. find_most_similar_word E target vocab True = Inr (m, sim) \<and> m \<noteq> target \<and>
           (m = [] \<or> m \<in> set vocab \<and> lower m \<noteq> lower target)"
proof -
  obtain m sim where r: "find_most_similar_word E target vocab True = Inr (m, sim)"
    and sh: "(m = [] \<and> sim = MInf \<and> list_all (\<lambda>w. True \<and> lower w = lower target) vocab) \<or>
      (m \<in> set vocab \<and> \<not> (True \<and> lower m = lower target) \<and> (\<exists>d. sim = Fin d))"
    using find_most_similar_word_shape [of E target vocab True] by blast
  from sh have "m \<noteq> target \<and> (m = [] \<or> m \<in> set vocab \<and> lower m \<noteq> lower target)"
  proof
    assume a: "m = [] \<and> sim = MInf \<and> list_all (\<lambda>w. True \<and> lower w = lower target) vocab"
    then have "lower w = lower target" using assms(2) by (simp add: list_all_iff)
    have "target \<noteq> []"
    proof
      assume "target = []"
      with \<open>lower w = lower target\<close> have "w = []" by simp
      with \<open>target = []\<close> assms(3) show False by simp
    qed
    with a show ?thesis by auto
  next
    assume "m \<in> set vocab \<and> \<not> (True \<and> lower m = lower target) \<and> (\<exists>d. sim = Fin d)"
    then show ?thesis by auto
  qed
  with r show ?thesis by blast
qed

theorem nearest_match_never_target_witness:
  "\<exists>m sim. find_most_similar_word offline (str ''hello'') [str ''hello'', str ''hola''] True
              = Inr (m, sim) \<and> m \<noteq> str ''hello'' \<and>
           (m = [] \<or> m \<in> set [str ''hello'', str ''hola''] \<and> lower m \<noteq> lower (str ''hello''))"
  using nearest_match_never_target [of "str ''hello''" "[str ''hello'', str ''hola'']" "str ''hola''" offline]
  by simp

section \<open>Properties of the word list provider\<close>

lemma tiers_offline: "try_frequency_lists offline l = []" "try_online_wordlist offline l = []"
  by (simp_all add: try_frequency_lists_def try_online_wordlist_def offline_def split: option.splits)

lemma builtin_spanish: "get_builtin_wordlist (str ''spanish'') = Inr spanish_words"
  by (simp add: get_builtin_wordlist_def sample_words_def lower_def lower_cp_def)

lemma builtin_french: "get_builtin_wordlist (str ''french'') = Inr french_words"
  by (simp add: get_builtin_wordlist_def sample_words_def lower_def lower_cp_def)

lemma no_builtin_dutch: "map_of sample_words (lower (str ''dutch'')) = None"
  by (simp add: sample_words_def lower_def lower_cp_def)

lemma no_builtin_klingon: "map_of sample_words (lower (str ''klingon'')) = None"
  by (simp add: sample_words_def lower_def lower_cp_def)

lemma no_url_klingon:
  "map_of freq_urls (lower (str ''klingon'')) = None" "map_of urls (lower (str ''klingon'')) = None"
  by (simp_all add: freq_urls_def urls_def lower_def lower_cp_def)

lemma tiers_klingon:
  "try_frequency_lists E (str ''klingon'') = []" "try_online_wordlist E (str ''klingon'') = []"
  using no_url_klingon by (simp_all add: try_frequency_lists_def try_online_wordlist_def)

lemma load_spanish_offline:
  "load_word_list offline Map.empty (str ''spanish'') = Inr (spanish_words, Map.empty)"
  using builtin_spanish by (simp add: load_word_list_def tiers_offline)

lemma load_french_offline:
  "load_word_list offline Map.empty (str ''french'') = Inr (french_words, Map.empty)"
  using builtin_french by (simp add: load_word_list_def tiers_offline)

lemma split_ws_de: "split_ws (str ''de 100'') = [str ''de'', str ''100'']"
  by (simp add: split_ws.simps isspace_cp_def)

lemma split_ws_het: "split_ws (str ''het 90'') = [str ''het'', str ''90'']"
  by (simp add: split_ws.simps isspace_cp_def)

lemma frequency_dutch_online:
  "try_frequency_lists dutch_online (str ''dutch'') = [str ''de'', str ''het'']"
  using split_ws_de split_ws_het
  by (simp add: try_frequency_lists_def freq_urls_def dutch_online_def offline_def
        strip_def isspace_cp_def lower_def lower_cp_def isalpha_def isalpha_cp_def)

lemma load_dutch_online:
  "load_word_list dutch_online Map.empty (str ''dutch'') =
     Inr ([str ''de'', str ''het''], [str ''dutch'' \<mapsto> [str ''de'', str ''het'']])"
  using frequency_dutch_online by (simp add: load_word_list_def Let_def)

lemma load_error:
  "load_word_list E wl l = Inl e \<Longrightarrow>
     e = UnsupportedLanguage l \<and> wl l = None \<and> try_frequency_lists E l = [] \<and>
     try_online_wordlist E l = [] \<and> map_of sample_words (lower l) = None"
  by (auto simp: load_word_list_def get_builtin_wordlist_def Let_def
           split: option.splits if_splits sum.splits)

lemma load_raises:
  "wl l = None \<Longrightarrow> try_frequency_lists E l = [] \<Longrightarrow> try_online_wordlist E l = [] \<Longrightarrow>
   map_of sample_words (lower l) = None \<Longrightarrow> load_word_list E wl l = Inl (UnsupportedLanguage l)"
  by (simp add: load_word_list_def get_builtin_wordlist_def)

lemma load_hit: "wl l = Some ws \<Longrightarrow> load_word_list E wl l = Inr (ws, wl)"
  by (simp add: load_word_list_def)



lemma embedded_language_loads:
  assumes "map_of sample_words (lower l) = Some xs"
  shows "\<exists>ws wl'. load_word_list E wl l = Inr (ws, wl')"
  using assms
  by (auto simp: load_word_list_def get_builtin_wordlist_def Let_def split: option.splits)




section \<open>Properties of the vocabularies\<close>

lemma english_words_entries: "list_all letters_and_spaces english_words"
  by (simp add: english_words_def letters_and_spaces_def lower_def lower_cp_def isalpha_cp_def)

lemma spanish_words_entries: "list_all letters_and_spaces spanish_words"
  by (simp add: spanish_words_def letters_and_spaces_def lower_def lower_cp_def isalpha_cp_def)

lemma french_words_entries: "list_all letters_and_spaces french_words"
  by (simp add: french_words_def letters_and_spaces_def lower_def lower_cp_def isalpha_cp_def)

lemma german_words_entries: "list_all letters_and_spaces german_words"
  by (simp add: german_words_def letters_and_spaces_def lower_def lower_cp_def isalpha_cp_def)

lemma italian_words_entries: "list_all letters_and_spaces italian_words"
  by (simp add: italian_words_def letters_and_spaces_def lower_def lower_cp_def isalpha_cp_def)

lemma portuguese_words_entries: "list_all letters_and_spaces portuguese_words"
  by (simp add: portuguese_words_def letters_and_spaces_def lower_def lower_cp_def isalpha_cp_def)

lemma builtin_entries:
  assumes "get_builtin_wordlist l = Inr ws"
  shows "list_all letters_and_spaces ws"
proof -
  from assms have "map_of sample_words (lower l) = Some ws"
    by (simp add: get_builtin_wordlist_def split: option.splits)
  then have "(lower l, ws) \<in> set sample_words" by (rule map_of_SomeD)
  then have "ws = english_words \<or> ws = spanish_words \<or> ws = french_words \<or>
             ws = german_words \<or> ws = italian_words \<or> ws = portuguese_words"
    by (auto simp: sample_words_def)
  then show ?thesis
    using english_words_entries spanish_words_entries french_words_entries
      german_words_entries italian_words_entries portuguese_words_entries by auto
qed

lemma frequency_words_entries:
  "w \<in> set (frequency_words lines) \<Longrightarrow>
     isalpha w \<and> 1 \<le> length w \<and> length w \<le> 25 \<and> (\<exists>u. w = lower u)"
proof (induction lines)
  case Nil
  then show ?case by simp
next
  case (Cons line lines)
  then show ?case
    by (cases "split_ws line") (auto simp: Let_def split: if_splits)
qed

lemma frequency_tier_entries:
  "w \<in> set (try_frequency_lists E l) \<Longrightarrow>
     isalpha w \<and> 1 \<le> length w \<and> length w \<le> 25 \<and> (\<exists>u. w = lower u)"
  by (auto simp: try_frequency_lists_def split: option.splits dest: frequency_words_entries)

lemma online_tier_entries:
  "w \<in> set (try_online_wordlist E l) \<Longrightarrow>
     \<exists>u. w = lower u \<and> isalpha u \<and> 1 \<le> length u \<and> length u \<le> 25"
  by (auto simp: try_online_wordlist_def split: option.splits)

text \<open>
  C9, as the code has it: an entry of a list of the frequency tier is alphabetic, in lower
  case and of 1 to 25 characters; an entry of a list of the general tier is the lower case
  of an alphabetic line of 1 to 25 characters; an entry of an embedded list is in lower
  case and consists of letters and spaces.
\<close>

theorem vocabulary_entries:
  "(\<forall>w \<in> set (try_frequency_lists E l).
       isalpha w \<and> 1 \<le> length w \<and> length w \<le> 25 \<and> (\<exists>u. w = lower u))
   \<and> (\<forall>w \<in> set (try_online_wordlist E l).
       \<exists>u. w = lower u \<and> isalpha u \<and> 1 \<le> length u \<and> length u \<le> 25)
   \<and> (\<forall>ws. get_builtin_wordlist l = Inr ws \<longrightarrow> list_all letters_and_spaces ws)"
  using frequency_tier_entries [of _ E l] online_tier_entries [of _ E l] builtin_entries [of l]
  by blast

lemma isalpha_de: "isalpha (str ''de'')"
  by (simp add: isalpha_def isalpha_cp_def)

theorem vocabulary_entries_witness:
  "isalpha (str ''de'') \<and> length (str ''de'') \<le> 25 \<and> list_all letters_and_spaces french_words"
proof -
  have m: "str ''de'' \<in> set (try_frequency_lists dutch_online (str ''dutch''))"
    using frequency_dutch_online by simp
  from vocabulary_entries [of dutch_online "str ''dutch''"] m
  have "isalpha (str ''de'') \<and> length (str ''de'') \<le> 25" by blast
  moreover from vocabulary_entries [of offline "str ''french''"] builtin_french
  have "list_all letters_and_spaces french_words" by blast
  ultimately show ?thesis by simp
qed

text \<open>
  The embedded list of French, which \<open>load("french")\<close> returns when there is no network,
  has the entry \<open>avoir besoin\<close>, which is not alphabetic.
\<close>

theorem embedded_entry_counterexample:
  "load_word_list offline Map.empty (str ''french'') = Inr (french_words, Map.empty)
   \<and> str ''avoir besoin'' \<in> set french_words
   \<and> \<not> isalpha (str ''avoir besoin'')"
proof -
  have "str ''avoir besoin'' \<in> set french_words" by (simp add: french_words_def)
  moreover have "\<not> isalpha (str ''avoir besoin'')" by (simp add: isalpha_def isalpha_cp_def)
  ultimately show ?thesis using load_french_offline by simp
qed

section \<open>Properties of the pipeline\<close>

lemma find_most_similar_word_Inr:
  "\<exists>m sim. find_most_similar_word E t ws ff = Inr (m, sim)"
  using find_most_similar_word_shape [of E t ws ff] by blast

lemma find_most_similar_word_single:
  assumes "lower w \<noteq> lower t"
  shows "\<exists>d. find_most_similar_word E t [w] True = Inr (w, Fin d)"
  using find_most_similar_word_shape [of E t "[w]" True] assms by auto

lemma load_stable:
  "load_word_list E wl l = Inr (ws, wl') \<Longrightarrow> load_word_list E wl' l = Inr (ws, wl')"
  by (auto simp: load_word_list_def Let_def split: option.splits if_splits sum.splits)

lemma load_after_other:
  assumes "load_word_list E wl a = Inr (wa, wl)" and "load_word_list E wl b = Inr (wb, wl')"
  shows "load_word_list E wl' a = Inr (wa, wl')"
proof (cases "a = b")
  case True
  with assms show ?thesis by simp
next
  case False
  show ?thesis
  proof (cases "wl b")
    case (Some x)
    with assms(2) have "wl' = wl" by (simp add: load_word_list_def)
    with assms(1) show ?thesis by simp
  next
    case None
    from assms(2) have "wl' = wl \<or> wl' = wl(b \<mapsto> wb)"
      by (auto simp: load_word_list_def Let_def split: option.splits if_splits sum.splits)
    then show ?thesis
    proof
      assume "wl' = wl"
      with assms(1) show ?thesis by simp
    next
      assume w: "wl' = wl(b \<mapsto> wb)"
      show ?thesis
      proof (cases "wl a")
        case (Some y)
        with assms(1) False w show ?thesis by (simp add: load_word_list_def)
      next
        case na: None
        with assms(1) have "try_frequency_lists E a = []" "try_online_wordlist E a = []"
          "get_builtin_wordlist a = Inr wa"
          by (auto simp: load_word_list_def Let_def fun_upd_idem_iff split: if_splits sum.splits)
        with na False w show ?thesis by (simp add: load_word_list_def)
      qed
    qed
  qed
qed

lemma loads_ready:
  assumes "load_word_list E wl a = Inr (wa, wl1)" and "load_word_list E wl1 b = Inr (wb, wl2)"
  shows "load_word_list E wl2 a = Inr (wa, wl2) \<and> load_word_list E wl2 b = Inr (wb, wl2)"
  using load_after_other [OF load_stable [OF assms(1)] assms(2)] load_stable [OF assms(2)]
  by simp

lemma fuzzy_haze_error:
  "fuzzy_haze E wl w a b = Inl e \<Longrightarrow> e = UnsupportedLanguage a \<or> e = UnsupportedLanguage b"
proof -
  assume f: "fuzzy_haze E wl w a b = Inl e"
  show ?thesis
  proof (cases "load_word_list E wl a")
    case (Inl x)
    with f have "e = x" by (simp add: fuzzy_haze_def)
    with Inl show ?thesis by (auto dest: load_error)
  next
    case (Inr p)
    obtain wa wl1 where p: "p = (wa, wl1)" by (cases p)
    show ?thesis
    proof (cases "load_word_list E wl1 b")
      case (Inl x)
      with f Inr p have "e = x" by (simp add: fuzzy_haze_def)
      with Inl show ?thesis by (auto dest: load_error)
    next
      case r2: (Inr q)
      obtain wb wl2 where q: "q = (wb, wl2)" by (cases q)
      obtain m1 s1 where m1: "find_most_similar_word E w wb True = Inr (m1, s1)"
        using find_most_similar_word_Inr by blast
      obtain m2 s2 where m2: "find_most_similar_word E m1 wa True = Inr (m2, s2)"
        using find_most_similar_word_Inr by blast
      from f Inr p r2 q m1 m2 show ?thesis
        by (simp add: fuzzy_haze_def Let_def split: if_splits)
    qed
  qed
qed

lemma fuzzy_haze_result:
  assumes "load_word_list E wl a = Inr (wa, wl1)" and "load_word_list E wl1 b = Inr (wb, wl2)"
  shows "\<exists>r. fuzzy_haze E wl w a b = Inr (r, wl2) \<and>
           find_most_similar_word E w wb True = Inr (step1_fuzzy_lang_b r, fuzzy_similarity r) \<and>
           (if startswith (simple_translate E (step1_fuzzy_lang_b r) b a) (str ''[untranslated:'')
               \<or> simple_translate E (step1_fuzzy_lang_b r) b a = step1_fuzzy_lang_b r
            then method_used r = str ''fuzzy_fallback'' \<and>
                 find_most_similar_word E (step1_fuzzy_lang_b r) wa True
                   = Inr (step2_result r, final_similarity r)
            else method_used r = str ''translate'' \<and>
                 step2_result r = simple_translate E (step1_fuzzy_lang_b r) b a \<and>
                 final_similarity r = Fin 1)"
proof -
  obtain m1 s1 where m1: "find_most_similar_word E w wb True = Inr (m1, s1)"
    using find_most_similar_word_Inr by blast
  obtain m2 s2 where m2: "find_most_similar_word E m1 wa True = Inr (m2, s2)"
    using find_most_similar_word_Inr by blast
  show ?thesis
    using assms m1 m2 by (simp add: fuzzy_haze_def Let_def)
qed


lemma hybrid_loop_result:
  assumes "load_word_list E wl a = Inr (wa, wl1)" and "load_word_list E wl1 b = Inr (wb, wl2)"
    and "list_all (hybrid_detail E a b wa wb) wds"
  shows "\<exists>tws' wds' wl'. hybrid_loop E a b wl tws wds items = Inr (tws', wds', wl') \<and>
           (wl' = wl \<or> wl' = wl2) \<and>
           list_all (hybrid_detail E a b wa wb) wds' \<and>
           map original wds' = map original wds @ filter re_match_word items"
  using assms
proof (induction items arbitrary: wl wl1 wl2 tws wds)
  case Nil
  then show ?case by simp
next
  case (Cons item items)
  show ?case
  proof (cases "re_match_word item")
    case False
    from Cons.IH [OF Cons.prems, of "tws @ [item]"] False show ?thesis by simp
  next
    case True
    obtain r where r: "fuzzy_haze E wl item a b = Inr (r, wl2)"
      and h1: "find_most_similar_word E item wb True = Inr (step1_fuzzy_lang_b r, fuzzy_similarity r)"
      and h2: "if startswith (simple_translate E (step1_fuzzy_lang_b r) b a) (str ''[untranslated:'')
               \<or> simple_translate E (step1_fuzzy_lang_b r) b a = step1_fuzzy_lang_b r
            then method_used r = str ''fuzzy_fallback'' \<and>
                 find_most_similar_word E (step1_fuzzy_lang_b r) wa True
                   = Inr (step2_result r, final_similarity r)
            else method_used r = str ''translate'' \<and>
                 step2_result r = simple_translate E (step1_fuzzy_lang_b r) b a \<and>
                 final_similarity r = Fin 1"
      using fuzzy_haze_result [OF Cons.prems(1,2), of item] by blast
    define d where "d = \<lparr>original = item, transformed = step2_result r,
         chain = hybrid_chain r, wd_method = str ''fuzzy_then_translate'',
         fallback_used = Some (method_used r)\<rparr>"
    have hd: "hybrid_detail E a b wa wb d"
      unfolding hybrid_detail_def
    proof (intro exI conjI)
      show "find_most_similar_word E (original d) wb True
              = Inr (step1_fuzzy_lang_b r, fuzzy_similarity r)"
        using h1 by (simp add: d_def)
      show "if startswith (simple_translate E (step1_fuzzy_lang_b r) b a) (str ''[untranslated:'')
               \<or> simple_translate E (step1_fuzzy_lang_b r) b a = step1_fuzzy_lang_b r
            then fallback_used d = Some (str ''fuzzy_fallback'') \<and>
                 (\<exists>s2. find_most_similar_word E (step1_fuzzy_lang_b r) wa True
                         = Inr (transformed d, s2))
            else fallback_used d = Some (str ''translate'') \<and>
                 transformed d = simple_translate E (step1_fuzzy_lang_b r) b a"
        using h2 by (auto simp: d_def split: if_splits)
    qed
    have ready: "load_word_list E wl2 a = Inr (wa, wl2)" "load_word_list E wl2 b = Inr (wb, wl2)"
      using loads_ready [OF Cons.prems(1,2)] by simp_all
    have all: "list_all (hybrid_detail E a b wa wb) (wds @ [d])"
      using Cons.prems(3) hd by simp
    from Cons.IH [OF ready all, of "tws @ [step2_result r]"]
    obtain tws' wds' wl' where
      l: "hybrid_loop E a b wl2 (tws @ [step2_result r]) (wds @ [d]) items = Inr (tws', wds', wl')"
      and c: "wl' = wl2"
      and p: "list_all (hybrid_detail E a b wa wb) wds'"
      and o: "map original wds' = map original (wds @ [d]) @ filter re_match_word items"
      by auto
    have "hybrid_loop E a b wl tws wds (item # items) = Inr (tws', wds', wl')"
      using True r l by (simp add: d_def)
    with c p o True show ?thesis by (simp add: d_def)
  qed
qed

lemma hybrid_haze_result:
  assumes "load_word_list E wl a = Inr (wa, wl1)" and "load_word_list E wl1 b = Inr (wb, wl2)"
  shows "\<exists>res wl'. hybrid_haze E wl sentence a b = Inr (res, wl') \<and>
           (wl' = wl \<or> wl' = wl2) \<and>
           list_all (hybrid_detail E a b wa wb) (word_transformations res) \<and>
           map original (word_transformations res) = filter re_match_word (re_findall sentence)"
proof -
  have e: "list_all (hybrid_detail E a b wa wb) []" by simp
  from hybrid_loop_result [OF assms e, of "[]" "re_findall sentence"]
  obtain tws' wds' wl' where
    "hybrid_loop E a b wl [] [] (re_findall sentence) = Inr (tws', wds', wl')"
    "wl' = wl \<or> wl' = wl2" "list_all (hybrid_detail E a b wa wb) wds'"
    "map original wds' = filter re_match_word (re_findall sentence)"
    by auto
  then show ?thesis by (simp add: hybrid_haze_def)
qed

text \<open>
  C2: when the translation of every word from language B to language A fails (the result
  starts with the marker or echoes the word), and the two vocabularies load,
  \<open>hybrid_haze\<close> returns a result whose word records are those of the word tokens, each
  with \<open>fallback_used = "fuzzy_fallback"\<close> and with the second nearest-match hop in
  vocabulary A as its final word; and \<open>fuzzy_haze\<close> reports for a word the method
  \<open>fuzzy_fallback\<close>, that hop as its result and the similarity of that hop.
\<close>

theorem hybrid_fallback:
  assumes "load_word_list E wl lang_a = Inr (wa, wl1)"
    and "load_word_list E wl1 lang_b = Inr (wb, wl2)"
    and "\<forall>w. startswith (simple_translate E w lang_b lang_a) (str ''[untranslated:'')
             \<or> simple_translate E w lang_b lang_a = w"
  shows "(\<exists>res wl'. hybrid_haze E wl sentence lang_a lang_b = Inr (res, wl') \<and>
            map original (word_transformations res) = filter re_match_word (re_findall sentence) \<and>
            list_all (\<lambda>d. fallback_used d = Some (str ''fuzzy_fallback'') \<and>
                   (\<exists>m s1 s2. find_most_similar_word E (original d) wb True = Inr (m, s1) \<and>
                       find_most_similar_word E m wa True = Inr (transformed d, s2)))
              (word_transformations res))
       \<and> (\<exists>r. fuzzy_haze E wl word lang_a lang_b = Inr (r, wl2) \<and>
            method_used r = str ''fuzzy_fallback'' \<and>
            find_most_similar_word E word wb True = Inr (step1_fuzzy_lang_b r, fuzzy_similarity r) \<and>
            find_most_similar_word E (step1_fuzzy_lang_b r) wa True
              = Inr (step2_result r, final_similarity r))"
proof
  obtain res wl' where h: "hybrid_haze E wl sentence lang_a lang_b = Inr (res, wl')"
    and p: "list_all (hybrid_detail E lang_a lang_b wa wb) (word_transformations res)"
    and o: "map original (word_transformations res) = filter re_match_word (re_findall sentence)"
    using hybrid_haze_result [OF assms(1,2), of sentence] by blast
  have "list_all (\<lambda>d. fallback_used d = Some (str ''fuzzy_fallback'') \<and>
                   (\<exists>m s1 s2. find_most_similar_word E (original d) wb True = Inr (m, s1) \<and>
                       find_most_similar_word E m wa True = Inr (transformed d, s2)))
              (word_transformations res)"
    using p assms(3) unfolding list_all_iff hybrid_detail_def by (auto split: if_splits)
  with h o show "\<exists>res wl'. hybrid_haze E wl sentence lang_a lang_b = Inr (res, wl') \<and>
            map original (word_transformations res) = filter re_match_word (re_findall sentence) \<and>
            list_all (\<lambda>d. fallback_used d = Some (str ''fuzzy_fallback'') \<and>
                   (\<exists>m s1 s2. find_most_similar_word E (original d) wb True = Inr (m, s1) \<and>
                       find_most_similar_word E m wa True = Inr (transformed d, s2)))
              (word_transformations res)"
    by blast
next
  from fuzzy_haze_result [OF assms(1,2), of word] assms(3)
  show "\<exists>r. fuzzy_haze E wl word lang_a lang_b = Inr (r, wl2) \<and>
            method_used r = str ''fuzzy_fallback'' \<and>
            find_most_similar_word E word wb True = Inr (step1_fuzzy_lang_b r, fuzzy_similarity r) \<and>
            find_most_similar_word E (step1_fuzzy_lang_b r) wa True
              = Inr (step2_result r, final_similarity r)"
    by (auto split: if_splits)
qed

lemma builtin_english: "get_builtin_wordlist (str ''english'') = Inr english_words"
  by (simp add: get_builtin_wordlist_def sample_words_def lower_def lower_cp_def)

lemma load_english_offline:
  "load_word_list offline Map.empty (str ''english'') = Inr (english_words, Map.empty)"
  using builtin_english by (simp add: load_word_list_def tiers_offline)

lemma translate_offline_spanish_english:
  "simple_translate offline w (str ''spanish'') (str ''english'')
     = str ''[untranslated: '' @ w @ str '']''"
  by (simp add: simple_translate_def offline_def lang_map_def translations_dict_def
        lower_def lower_cp_def)

lemma translation_fails_offline:
  "startswith (simple_translate offline w (str ''spanish'') (str ''english'')) (str ''[untranslated:'')"
  using translate_offline_spanish_english [of w] by (simp add: startswith_def)

theorem hybrid_fallback_witness:
  "(\<exists>res wl'. hybrid_haze offline Map.empty (str ''hello world'') (str ''english'') (str ''spanish'')
                 = Inr (res, wl') \<and>
            map original (word_transformations res)
              = filter re_match_word (re_findall (str ''hello world'')) \<and>
            list_all (\<lambda>d. fallback_used d = Some (str ''fuzzy_fallback'') \<and>
                   (\<exists>m s1 s2. find_most_similar_word offline (original d) spanish_words True
                                 = Inr (m, s1) \<and>
                       find_most_similar_word offline m english_words True = Inr (transformed d, s2)))
              (word_transformations res))
       \<and> (\<exists>r. fuzzy_haze offline Map.empty (str ''hello'') (str ''english'') (str ''spanish'')
                 = Inr (r, Map.empty) \<and>
            method_used r = str ''fuzzy_fallback'' \<and>
            find_most_similar_word offline (str ''hello'') spanish_words True
              = Inr (step1_fuzzy_lang_b r, fuzzy_similarity r) \<and>
            find_most_similar_word offline (step1_fuzzy_lang_b r) english_words True
              = Inr (step2_result r, final_similarity r))"
proof -
  have f: "\<forall>w. startswith (simple_translate offline w (str ''spanish'') (str ''english''))
                 (str ''[untranslated:'')
             \<or> simple_translate offline w (str ''spanish'') (str ''english'') = w"
    using translation_fails_offline by blast
  show ?thesis
    by (rule hybrid_fallback [OF load_english_offline load_spanish_offline f])
qed

section \<open>Properties of the convergence loop\<close>

lemma hybrid_haze_loads:
  assumes "load_word_list E wl a = Inr (wa, wl1)" and "load_word_list E wl1 b = Inr (wb, wl2)"
  shows "\<exists>res wl' wl1'. hybrid_haze E wl sentence a b = Inr (res, wl') \<and>
           load_word_list E wl' a = Inr (wa, wl1') \<and> load_word_list E wl1' b = Inr (wb, wl2)"
proof -
  obtain res wl' where h: "hybrid_haze E wl sentence a b = Inr (res, wl')"
    and c: "wl' = wl \<or> wl' = wl2"
    using hybrid_haze_result [OF assms, of sentence] by blast
  from c show ?thesis
  proof
    assume "wl' = wl"
    with h assms show ?thesis by blast
  next
    assume "wl' = wl2"
    with h loads_ready [OF assms] show ?thesis by blast
  qed
qed

lemma rehaze_loop_done:
  "\<not> i < mx \<Longrightarrow> rehaze_loop E a b mx thr i wl cur its = Inr (cur, its, wl)"
  by (subst rehaze_loop.simps) simp

lemma rehaze_loop_step:
  assumes "i < mx" and "hybrid_haze E wl cur a b = Inr (tr, wl')"
  shows "rehaze_loop E a b mx thr i wl cur its =
          (if thr \<le> (if i > 0 then ratio E (lower cur) (lower (cleanup (transformed_sentence tr))) else 0)
           then Inr (cur,
                  its @ [\<lparr>iteration = i + 1, input_text = cur,
                          output_text = cleanup (transformed_sentence tr),
                          similarity_to_previous =
                            (if i > 0 then ratio E (lower cur) (lower (cleanup (transformed_sentence tr))) else 0),
                          it_word_transformations = word_transformations tr,
                          transformation_count = length (word_transformations tr)\<rparr>], wl')
           else rehaze_loop E a b mx thr (i + 1) wl' (cleanup (transformed_sentence tr))
                  (its @ [\<lparr>iteration = i + 1, input_text = cur,
                          output_text = cleanup (transformed_sentence tr),
                          similarity_to_previous =
                            (if i > 0 then ratio E (lower cur) (lower (cleanup (transformed_sentence tr))) else 0),
                          it_word_transformations = word_transformations tr,
                          transformation_count = length (word_transformations tr)\<rparr>]))"
  using assms by (subst rehaze_loop.simps) (simp add: Let_def)

text \<open>
  A run of the loop from \<open>i\<close> on, when the vocabularies load: the records it adds, and the
  text it leaves in \<open>current_text\<close>.
\<close>

lemma rehaze_loop_run:
  assumes "load_word_list E wl a = Inr (wa, wl1)" and "load_word_list E wl1 b = Inr (wb, wl2)"
  shows "\<exists>cur' new wl'. rehaze_loop E a b mx thr i wl cur its = Inr (cur', its @ new, wl') \<and>
           int (length new) \<le> max 0 (mx - i) \<and>
           list_all (\<lambda>it. similarity_to_previous it < thr) (butlast new) \<and>
           (int (length new) < mx - i \<longrightarrow> new \<noteq> [] \<and> thr \<le> similarity_to_previous (last new)) \<and>
           (new \<noteq> [] \<and> i = 0 \<longrightarrow> similarity_to_previous (hd new) = 0) \<and>
           (new = [] \<longrightarrow> cur' = cur) \<and>
           (new \<noteq> [] \<longrightarrow> input_text (hd new) = cur \<and>
              cur' = (if thr \<le> similarity_to_previous (last new) then input_text (last new)
                      else output_text (last new)))"
  using assms
proof (induction "nat (mx - i)" arbitrary: i wl wl1 cur its)
  case 0
  then have ge: "\<not> i < mx" by simp
  then have "rehaze_loop E a b mx thr i wl cur its = Inr (cur, its @ [], wl)"
    by (simp add: rehaze_loop_done)
  with ge show ?case by (intro exI [of _ cur] exI [of _ "[]"] exI [of _ wl]) simp
next
  case (Suc n)
  then have lt: "i < mx" by simp
  obtain tr wl' wl1' where hh: "hybrid_haze E wl cur a b = Inr (tr, wl')"
    and la: "load_word_list E wl' a = Inr (wa, wl1')"
    and lb: "load_word_list E wl1' b = Inr (wb, wl2)"
    using hybrid_haze_loads [OF Suc.prems, of cur] by blast
  define outp where "outp = cleanup (transformed_sentence tr)"
  define sim where "sim = (if i > 0 then ratio E (lower cur) (lower outp) else 0)"
  define itrec where "itrec = \<lparr>iteration = i + 1, input_text = cur, output_text = outp,
                          similarity_to_previous = sim,
                          it_word_transformations = word_transformations tr,
                          transformation_count = length (word_transformations tr)\<rparr>"
  have step: "rehaze_loop E a b mx thr i wl cur its =
          (if thr \<le> sim then Inr (cur, its @ [itrec], wl')
           else rehaze_loop E a b mx thr (i + 1) wl' outp (its @ [itrec]))"
    using rehaze_loop_step [OF lt hh, of thr its] by (simp add: outp_def sim_def itrec_def)
  show ?case
  proof (cases "thr \<le> sim")
    case True
    with step have "rehaze_loop E a b mx thr i wl cur its = Inr (cur, its @ [itrec], wl')" by simp
    moreover have "similarity_to_previous itrec = sim" "input_text itrec = cur"
      by (simp_all add: itrec_def)
    moreover have "i = 0 \<longrightarrow> sim = 0" by (simp add: sim_def)
    ultimately show ?thesis
      using True lt by (intro exI [of _ cur] exI [of _ "[itrec]"] exI [of _ wl']) simp
  next
    case False
    have n: "n = nat (mx - (i + 1))" using Suc.hyps(2) by simp
    from Suc.hyps(1) [OF n la lb, of outp "its @ [itrec]"]
    obtain cur' new wl'' where
      r: "rehaze_loop E a b mx thr (i + 1) wl' outp (its @ [itrec]) = Inr (cur', (its @ [itrec]) @ new, wl'')"
      and len: "int (length new) \<le> max 0 (mx - (i + 1))"
      and bl: "list_all (\<lambda>it. similarity_to_previous it < thr) (butlast new)"
      and st: "int (length new) < mx - (i + 1) \<longrightarrow> new \<noteq> [] \<and> thr \<le> similarity_to_previous (last new)"
      and c0: "new = [] \<longrightarrow> cur' = outp"
      and c1: "new \<noteq> [] \<longrightarrow> input_text (hd new) = outp \<and>
              cur' = (if thr \<le> similarity_to_previous (last new) then input_text (last new)
                      else output_text (last new))"
      by blast
    have recs: "similarity_to_previous itrec = sim" "input_text itrec = cur" "output_text itrec = outp"
      by (simp_all add: itrec_def)
    have res: "rehaze_loop E a b mx thr i wl cur its = Inr (cur', its @ (itrec # new), wl'')"
      using step False r by simp
    have g1: "int (length (itrec # new)) \<le> max 0 (mx - i)" using len lt by simp
    have g2: "list_all (\<lambda>it. similarity_to_previous it < thr) (butlast (itrec # new))"
      using bl False recs by simp
    have g3: "int (length (itrec # new)) < mx - i \<longrightarrow>
                thr \<le> similarity_to_previous (last (itrec # new))"
      using st by auto
    have g4: "i = 0 \<longrightarrow> similarity_to_previous (hd (itrec # new)) = 0"
      using recs by (simp add: sim_def)
    have g5: "input_text (hd (itrec # new)) = cur" using recs by simp
    have g6: "cur' = (if thr \<le> similarity_to_previous (last (itrec # new))
                      then input_text (last (itrec # new)) else output_text (last (itrec # new)))"
      using c0 c1 False recs by (cases "new = []") simp_all
    show ?thesis
      using res g1 g2 g3 g4 g5 g6
      by (intro exI [of _ cur'] exI [of _ "itrec # new"] exI [of _ wl'']) simp
  qed
qed

text \<open>
  C5: for every text and every pair of languages whose vocabularies load (those of the six
  languages with an embedded list always do, by \<open>embedded_language_loads\<close>), \<open>rehaze\<close>
  with threshold 0.0 and at most 20 iterations returns after its first iteration with
  \<open>converged = true\<close> (so within 2 iterations), the similarity of that iteration being
  0.0; and for every threshold and cap, \<open>rehaze\<close> returns, it records at most
  \<open>max_iterations\<close> iterations, the similarity of the first is 0.0, every iteration
  before the last has a similarity below the threshold, and when the loop stops before
  the cap the last similarity is at least the threshold.
\<close>

theorem rehaze_convergence:
  assumes "load_word_list E wl lang_a = Inr (wa, wl1)"
    and "load_word_list E wl1 lang_b = Inr (wb, wl2)"
  shows "(\<exists>r wl'. rehaze E wl initial lang_a lang_b 20 0 = Inr (r, wl') \<and>
            converged r \<and> total_iterations r = 1 \<and> total_iterations r \<le> 2 \<and>
            similarity_to_previous (hd (iterations r)) = 0)
       \<and> (\<exists>r wl'. rehaze E wl initial lang_a lang_b mx thr = Inr (r, wl') \<and>
            int (total_iterations r) \<le> max 0 mx \<and>
            (iterations r \<noteq> [] \<longrightarrow> similarity_to_previous (hd (iterations r)) = 0) \<and>
            list_all (\<lambda>it. similarity_to_previous it < thr) (butlast (iterations r)) \<and>
            (converged r \<longrightarrow>
               iterations r \<noteq> [] \<and> thr \<le> similarity_to_previous (last (iterations r))))"
proof
  obtain tr wl' where hh: "hybrid_haze E wl initial lang_a lang_b = Inr (tr, wl')"
    using hybrid_haze_loads [OF assms, of initial] by blast
  have "(0::int) < 20" by simp
  from rehaze_loop_step [OF this hh, of 0 "[]"]
  obtain it where l: "rehaze_loop E lang_a lang_b 20 0 0 wl initial [] = Inr (initial, [it], wl')"
    and s: "similarity_to_previous it = 0"
    by simp
  show "\<exists>r wl'. rehaze E wl initial lang_a lang_b 20 0 = Inr (r, wl') \<and>
            converged r \<and> total_iterations r = 1 \<and> total_iterations r \<le> 2 \<and>
            similarity_to_previous (hd (iterations r)) = 0"
    using l s by (simp add: rehaze_def)
next
  from rehaze_loop_run [OF assms, of mx thr 0 initial "[]"]
  obtain cur' new wl' where
    l: "rehaze_loop E lang_a lang_b mx thr 0 wl initial [] = Inr (cur', new, wl')"
    and len: "int (length new) \<le> max 0 mx"
    and bl: "list_all (\<lambda>it. similarity_to_previous it < thr) (butlast new)"
    and st: "int (length new) < mx \<longrightarrow> new \<noteq> [] \<and> thr \<le> similarity_to_previous (last new)"
    and fi: "new \<noteq> [] \<longrightarrow> similarity_to_previous (hd new) = 0"
    by auto
  show "\<exists>r wl'. rehaze E wl initial lang_a lang_b mx thr = Inr (r, wl') \<and>
            int (total_iterations r) \<le> max 0 mx \<and>
            (iterations r \<noteq> [] \<longrightarrow> similarity_to_previous (hd (iterations r)) = 0) \<and>
            list_all (\<lambda>it. similarity_to_previous it < thr) (butlast (iterations r)) \<and>
            (converged r \<longrightarrow>
               iterations r \<noteq> [] \<and> thr \<le> similarity_to_previous (last (iterations r)))"
    using l len bl st fi by (simp add: rehaze_def)
qed

theorem rehaze_convergence_witness:
  "(\<exists>r wl'. rehaze offline Map.empty (str ''hello world'') (str ''english'') (str ''spanish'') 20 0
               = Inr (r, wl') \<and>
            converged r \<and> total_iterations r = 1 \<and> total_iterations r \<le> 2 \<and>
            similarity_to_previous (hd (iterations r)) = 0)"
  using rehaze_convergence [OF load_english_offline load_spanish_offline, of "str ''hello world''" 20 0]
  by blast

section \<open>A run of the engine\<close>

text \<open>
  With the environment \<open>one_word_lists\<close> the vocabulary of English is the one word
  \<open>house\<close> and that of Spanish the one word \<open>casa\<close>; the word \<open>hello\<close> is taken to
  \<open>casa\<close>, that has no translation, and the second hop gives \<open>house\<close>.
\<close>

lemma split_ws_house: "split_ws (str ''house'') = [str ''house'']"
  by (simp add: split_ws.simps isspace_cp_def)

lemma split_ws_casa: "split_ws (str ''casa'') = [str ''casa'']"
  by (simp add: split_ws.simps isspace_cp_def)

lemma frequency_english_one:
  "try_frequency_lists one_word_lists (str ''english'') = [str ''house'']"
  using split_ws_house
  by (simp add: try_frequency_lists_def freq_urls_def one_word_lists_def offline_def
        strip_def isspace_cp_def lower_def lower_cp_def isalpha_def isalpha_cp_def)

lemma frequency_spanish_one:
  "try_frequency_lists one_word_lists (str ''spanish'') = [str ''casa'']"
  using split_ws_casa
  by (simp add: try_frequency_lists_def freq_urls_def one_word_lists_def offline_def
        strip_def isspace_cp_def lower_def lower_cp_def isalpha_def isalpha_cp_def)

lemma load_english_one:
  "load_word_list one_word_lists Map.empty (str ''english'')
     = Inr ([str ''house''], [str ''english'' \<mapsto> [str ''house'']])"
  using frequency_english_one by (simp add: load_word_list_def Let_def)

lemma load_spanish_one:
  "load_word_list one_word_lists [str ''english'' \<mapsto> [str ''house'']] (str ''spanish'')
     = Inr ([str ''casa''],
            [str ''english'' \<mapsto> [str ''house''], str ''spanish'' \<mapsto> [str ''casa'']])"
  using frequency_spanish_one by (simp add: load_word_list_def Let_def)

lemma translate_one:
  "simple_translate one_word_lists w (str ''spanish'') (str ''english'')
     = str ''[untranslated: '' @ w @ str '']''"
  by (simp add: simple_translate_def one_word_lists_def offline_def lang_map_def
        translations_dict_def lower_def lower_cp_def)

lemma findall_hello: "re_findall (str ''hello'') = [str ''hello'']"
  by (simp add: re_findall_def findall_tokens.simps match_token_def match_word_def
        word_boundary_def isword_cp_def isalpha_cp_def)

lemma sub_house:
  "sub_from (str ''yao'') no_lookahead (str ''y'') None (str ''house'') = str ''house''"
  "sub_from (str ''noo'') no_lookahead (str ''no'') None (str ''house'') = str ''house''"
  "sub_from (str ''you'') not_a_to_z (str ''y'') None (str ''house'') = str ''house''"
  "sub_from (str ''dee'') no_lookahead (str ''de'') None (str ''house'') = str ''house''"
  "sub_from (str ''aii'') no_lookahead (str ''ah'' @ [237]) None (str ''house'') = str ''house''"
  "sub_from (str ''maui'') no_lookahead (str ''mi'') None (str ''house'') = str ''house''"
  "sub_from (str ''ai'') no_lookahead (str ''a'') None (str ''house'') = str ''house''"
  by (simp_all add: sub_from.simps startswith_def)

lemma cleanup_house: "cleanup (str ''house'') = str ''house''"
  using sub_house by (simp add: cleanup_def Let_def)

lemma generate_house: "generate_final_text E (str ''house'') l = str ''house''"
  using split_ws_house by (simp add: generate_final_text_def Let_def)

lemma hybrid_haze_hello:
  "\<exists>res. hybrid_haze one_word_lists Map.empty (str ''hello'') (str ''english'') (str ''spanish'')
          = Inr (res, [str ''english'' \<mapsto> [str ''house''], str ''spanish'' \<mapsto> [str ''casa'']])
        \<and> transformed_sentence res = str ''house''
        \<and> map transformed (word_transformations res) = [str ''house'']
        \<and> map fallback_used (word_transformations res) = [Some (str ''fuzzy_fallback'')]"
proof -
  have "lower (str ''casa'') \<noteq> lower (str ''hello'')" by (simp add: lower_def lower_cp_def)
  then obtain d1 where f1: "find_most_similar_word one_word_lists (str ''hello'') [str ''casa''] True
      = Inr (str ''casa'', Fin d1)"
    using find_most_similar_word_single by blast
  have "lower (str ''house'') \<noteq> lower (str ''casa'')" by (simp add: lower_def lower_cp_def)
  then obtain d2 where f2: "find_most_similar_word one_word_lists (str ''casa'') [str ''house''] True
      = Inr (str ''house'', Fin d2)"
    using find_most_similar_word_single by blast
  have re: "re_match_word (str ''hello'')"
    by (simp add: re_match_word_def isword_cp_def isalpha_cp_def)
  show ?thesis
    using load_english_one load_spanish_one f1 f2 translate_one [of "str ''casa''"]
      findall_hello re generate_house [of one_word_lists "str ''english''"]
    by (simp add: hybrid_haze_def fuzzy_haze_def Let_def startswith_def)
qed

text \<open>
  C6 at this run: \<open>rehaze("hello", "english", "spanish", 20, 0.0)\<close> stops by \<open>break\<close> in
  its first iteration. \<open>final_text\<close> is the one output \<open>house\<close>, joined; but
  \<open>final_iteration_text\<close> is \<open>hello\<close>, the input of the last recorded iteration, not its
  output \<open>house\<close>.
\<close>

theorem final_iteration_text_after_break:
  "\<exists>r wl'. rehaze one_word_lists Map.empty (str ''hello'') (str ''english'') (str ''spanish'') 20 0
             = Inr (r, wl')
     \<and> map output_text (iterations r) = [str ''house'']
     \<and> final_text r = str ''house''
     \<and> final_iteration_text r = str ''hello''
     \<and> final_iteration_text r \<noteq> output_text (last (iterations r))"
proof -
  obtain res where h: "hybrid_haze one_word_lists Map.empty (str ''hello'') (str ''english'') (str ''spanish'')
          = Inr (res, [str ''english'' \<mapsto> [str ''house''], str ''spanish'' \<mapsto> [str ''casa'']])"
    and t: "transformed_sentence res = str ''house''"
    using hybrid_haze_hello by blast
  have "(0::int) < 20" by simp
  from rehaze_loop_step [OF this h, of 0 "[]"] t cleanup_house
  show ?thesis by (simp add: rehaze_def)
qed

section \<open>Properties of the word strategies of \<open>haze\<close>\<close>

lemma transform_direct_fuzzy_error:
  assumes "transform_direct_fuzzy E wl w a b = Inl e"
  shows "e = UnsupportedLanguage a \<or> e = UnsupportedLanguage b"
proof (cases "load_word_list E wl a")
  case (Inl x)
  with assms have "e = x" by (simp add: transform_direct_fuzzy_def)
  with Inl show ?thesis by (auto dest: load_error)
next
  case (Inr p)
  obtain wa wl1 where p: "p = (wa, wl1)" by (cases p)
  show ?thesis
  proof (cases "load_word_list E wl1 b")
    case (Inl x)
    with assms Inr p have "e = x" by (simp add: transform_direct_fuzzy_def)
    with Inl show ?thesis by (auto dest: load_error)
  next
    case r2: (Inr q)
    obtain wb wl2 where q: "q = (wb, wl2)" by (cases q)
    obtain m1 s1 where m1: "find_most_similar_word E w wb True = Inr (m1, s1)"
      using find_most_similar_word_Inr by blast
    obtain m2 s2 where m2: "find_most_similar_word E m1 wa True = Inr (m2, s2)"
      using find_most_similar_word_Inr by blast
    from assms Inr p r2 q m1 m2 show ?thesis
      by (simp add: transform_direct_fuzzy_def)
  qed
qed

lemma transform_direct_fuzzy_Inr:
  assumes "load_word_list E wl a = Inr (wa, wl1)" and "load_word_list E wl1 b = Inr (wb, wl2)"
  shows "\<exists>r. transform_direct_fuzzy E wl w a b = Inr (r, wl2)"
proof -
  obtain m1 s1 where m1: "find_most_similar_word E w wb True = Inr (m1, s1)"
    using find_most_similar_word_Inr by blast
  obtain m2 s2 where m2: "find_most_similar_word E m1 wa True = Inr (m2, s2)"
    using find_most_similar_word_Inr by blast
  show ?thesis using assms m1 m2 by (simp add: transform_direct_fuzzy_def)
qed

lemma transform_direct_translate_error:
  assumes "transform_direct_translate E wl w a b = Inl e"
  shows "e = UnsupportedLanguage b"
proof (cases "load_word_list E wl b")
  case (Inl x)
  with assms have "e = x" by (simp add: transform_direct_translate_def)
  with Inl show ?thesis by (auto dest: load_error)
next
  case (Inr q)
  obtain wb wl1 where q: "q = (wb, wl1)" by (cases q)
  obtain m1 s1 where m1: "find_most_similar_word E w wb True = Inr (m1, s1)"
    using find_most_similar_word_Inr by blast
  from assms Inr q m1 show ?thesis
    by (simp add: transform_direct_translate_def Let_def)
qed

lemma transform_direct_translate_Inr:
  assumes "load_word_list E wl b = Inr (wb, wl1)"
  shows "\<exists>r. transform_direct_translate E wl w a b = Inr (r, wl1)"
proof -
  obtain m1 s1 where m1: "find_most_similar_word E w wb True = Inr (m1, s1)"
    using find_most_similar_word_Inr by blast
  show ?thesis using assms m1 by (simp add: transform_direct_translate_def Let_def)
qed

lemma load_second_first:
  assumes "load_word_list E wl a = Inr (wa, wl1)" and "load_word_list E wl1 b = Inr (wb, wl2)"
  shows "\<exists>wl3. load_word_list E wl b = Inr (wb, wl3)"
proof (cases "a = b")
  case True
  from load_stable [OF assms(1)] assms(2) True have "wb = wa" by simp
  with assms(1) True show ?thesis by blast
next
  case False
  from assms(1) have "wl1 = wl \<or> wl1 = wl(a \<mapsto> wa)"
    by (auto simp: load_word_list_def Let_def split: option.splits if_splits sum.splits)
  then show ?thesis
  proof
    assume "wl1 = wl"
    with assms(2) show ?thesis by blast
  next
    assume "wl1 = wl(a \<mapsto> wa)"
    with False have "wl1 b = wl b" by simp
    with assms(2) show ?thesis
      by (auto simp: load_word_list_def Let_def split: option.splits if_splits sum.splits)
  qed
qed

lemma transform_direct_fuzzy_result:
  assumes "load_word_list E wl a = Inr (wa, wl1)" and "load_word_list E wl1 b = Inr (wb, wl2)"
  shows "\<exists>r s1 s2. transform_direct_fuzzy E wl w a b = Inr (r, wl2) \<and>
           find_most_similar_word E w wb True = Inr (step1_lang_b r, s1) \<and>
           find_most_similar_word E (step1_lang_b r) wa True = Inr (step2_final_lang_a r, s2) \<and>
           direct_fuzzy_chain r = w @ arrow @ step1_lang_b r @ arrow @ step2_final_lang_a r"
proof -
  obtain m1 s1 where m1: "find_most_similar_word E w wb True = Inr (m1, s1)"
    using find_most_similar_word_Inr by blast
  obtain m2 s2 where m2: "find_most_similar_word E m1 wa True = Inr (m2, s2)"
    using find_most_similar_word_Inr by blast
  show ?thesis using assms m1 m2 by (simp add: transform_direct_fuzzy_def)
qed

lemma transform_direct_translate_result:
  assumes "load_word_list E wl b = Inr (wb, wl1)"
  shows "\<exists>r s1. transform_direct_translate E wl w a b = Inr (r, wl1) \<and>
           find_most_similar_word E w wb True = Inr (lang_b_match r, s1) \<and>
           final_translation r = simple_translate E (lang_b_match r) b a \<and>
           direct_chain r = w @ arrow @ lang_b_match r @ arrow @ final_translation r"
proof -
  obtain m1 s1 where m1: "find_most_similar_word E w wb True = Inr (m1, s1)"
    using find_most_similar_word_Inr by blast
  show ?thesis using assms m1 by (simp add: transform_direct_translate_def Let_def)
qed

lemma haze_loop_fuzzy_result:
  assumes "load_word_list E wl a = Inr (wa, wl1)" and "load_word_list E wl1 b = Inr (wb, wl2)"
    and "list_all (haze_detail E a b wa wb (str ''fuzzy'')) wds"
  shows "\<exists>tws' wds' wl'. haze_loop E a b (str ''fuzzy'') wl tws wds items = Inr (tws', wds', wl') \<and>
           list_all (haze_detail E a b wa wb (str ''fuzzy'')) wds' \<and>
           map original wds' = map original wds @ filter re_match_word items"
  using assms
proof (induction items arbitrary: wl wl1 tws wds)
  case Nil
  then show ?case by simp
next
  case (Cons item items)
  show ?case
  proof (cases "re_match_word item")
    case False
    from Cons.IH [OF Cons.prems, of "tws @ [item]"] False show ?thesis by simp
  next
    case True
    obtain r s1 s2 where t: "transform_direct_fuzzy E wl item a b = Inr (r, wl2)"
      and h1: "find_most_similar_word E item wb True = Inr (step1_lang_b r, s1)"
      and h2: "find_most_similar_word E (step1_lang_b r) wa True = Inr (step2_final_lang_a r, s2)"
      and ch: "direct_fuzzy_chain r = item @ arrow @ step1_lang_b r @ arrow @ step2_final_lang_a r"
      using transform_direct_fuzzy_result [OF Cons.prems(1,2), of item] by blast
    define d where "d = \<lparr>original = item, transformed = step2_final_lang_a r,
        chain = direct_fuzzy_chain r, wd_method = str ''fuzzy'', fallback_used = None\<rparr>"
    have hd: "haze_detail E a b wa wb (str ''fuzzy'') d"
      unfolding haze_detail_def
    proof (intro conjI exI)
      show "wd_method d = str ''fuzzy''" by (simp add: d_def)
      show "fallback_used d = None" by (simp add: d_def)
      show "find_most_similar_word E (original d) wb True = Inr (step1_lang_b r, s1)"
        using h1 by (simp add: d_def)
      show "chain d = original d @ arrow @ step1_lang_b r @ arrow @ transformed d"
        using ch by (simp add: d_def)
      show "if str ''fuzzy'' = str ''fuzzy''
            then \<exists>s2. find_most_similar_word E (step1_lang_b r) wa True = Inr (transformed d, s2)
            else transformed d = simple_translate E (step1_lang_b r) b a"
        using h2 by (auto simp: d_def)
    qed
    have ready: "load_word_list E wl2 a = Inr (wa, wl2)" "load_word_list E wl2 b = Inr (wb, wl2)"
      using loads_ready [OF Cons.prems(1,2)] by simp_all
    have all: "list_all (haze_detail E a b wa wb (str ''fuzzy'')) (wds @ [d])"
      using Cons.prems(3) hd by simp
    from Cons.IH [OF ready all, of "tws @ [step2_final_lang_a r]"]
    obtain tws' wds' wl' where
      l: "haze_loop E a b (str ''fuzzy'') wl2 (tws @ [step2_final_lang_a r]) (wds @ [d]) items
            = Inr (tws', wds', wl')"
      and p: "list_all (haze_detail E a b wa wb (str ''fuzzy'')) wds'"
      and o: "map original wds' = map original (wds @ [d]) @ filter re_match_word items"
      by auto
    have "haze_loop E a b (str ''fuzzy'') wl tws wds (item # items) = Inr (tws', wds', wl')"
      using True t l by (simp add: d_def)
    with p o True show ?thesis by (simp add: d_def)
  qed
qed

lemma haze_loop_translate_result:
  assumes "load_word_list E wl b = Inr (wb, wl1)" and "meth \<noteq> str ''fuzzy''"
    and "list_all (haze_detail E a b wa wb meth) wds"
  shows "\<exists>tws' wds' wl'. haze_loop E a b meth wl tws wds items = Inr (tws', wds', wl') \<and>
           list_all (haze_detail E a b wa wb meth) wds' \<and>
           map original wds' = map original wds @ filter re_match_word items"
  using assms
proof (induction items arbitrary: wl tws wds)
  case Nil
  then show ?case by simp
next
  case (Cons item items)
  show ?case
  proof (cases "re_match_word item")
    case False
    from Cons.IH [OF Cons.prems, of "tws @ [item]"] False show ?thesis by simp
  next
    case True
    obtain r s1 where t: "transform_direct_translate E wl item a b = Inr (r, wl1)"
      and h1: "find_most_similar_word E item wb True = Inr (lang_b_match r, s1)"
      and h2: "final_translation r = simple_translate E (lang_b_match r) b a"
      and ch: "direct_chain r = item @ arrow @ lang_b_match r @ arrow @ final_translation r"
      using transform_direct_translate_result [OF Cons.prems(1), of item a] by blast
    define d where "d = \<lparr>original = item, transformed = final_translation r,
        chain = direct_chain r, wd_method = meth, fallback_used = None\<rparr>"
    have hd: "haze_detail E a b wa wb meth d"
      unfolding haze_detail_def
    proof (intro conjI exI)
      show "wd_method d = meth" by (simp add: d_def)
      show "fallback_used d = None" by (simp add: d_def)
      show "find_most_similar_word E (original d) wb True = Inr (lang_b_match r, s1)"
        using h1 by (simp add: d_def)
      show "chain d = original d @ arrow @ lang_b_match r @ arrow @ transformed d"
        using ch by (simp add: d_def)
      show "if meth = str ''fuzzy''
            then \<exists>s2. find_most_similar_word E (lang_b_match r) wa True = Inr (transformed d, s2)
            else transformed d = simple_translate E (lang_b_match r) b a"
        using h2 Cons.prems(2) by (simp add: d_def)
    qed
    have all: "list_all (haze_detail E a b wa wb meth) (wds @ [d])"
      using Cons.prems(3) hd by simp
    from Cons.IH [OF load_stable [OF Cons.prems(1)] Cons.prems(2) all, of "tws @ [final_translation r]"]
    obtain tws' wds' wl' where
      l: "haze_loop E a b meth wl1 (tws @ [final_translation r]) (wds @ [d]) items
            = Inr (tws', wds', wl')"
      and p: "list_all (haze_detail E a b wa wb meth) wds'"
      and o: "map original wds' = map original (wds @ [d]) @ filter re_match_word items"
      by auto
    have "haze_loop E a b meth wl tws wds (item # items) = Inr (tws', wds', wl')"
      using True t l Cons.prems(2) by (simp add: d_def)
    with p o True show ?thesis by (simp add: d_def)
  qed
qed


text \<open>
  C10: \<open>haze\<close> tests the method against \<open>"fuzzy"\<close> only. With the method \<open>"fuzzy"\<close>,
  when the vocabularies A and B load, \<open>haze\<close> returns a result with one record per word
  token, in order, each holding the fuzzy two-hop strategy on the loaded vocabularies:
  the nearest match \<open>m\<close> of the word in vocabulary B, then the nearest match of \<open>m\<close> in
  vocabulary A as the final word. With any other method (\<open>"translate"\<close>, \<open>"hybrid"\<close>,
  any string), when vocabulary B loads (vocabulary A is not needed), every record holds
  the translate strategy: the nearest match \<open>m\<close> in vocabulary B, then the translation of
  \<open>m\<close> as the final word, marker or not. No record has a \<open>fallback_used\<close>.
\<close>

theorem haze_dispatch:
  "(meth = str ''fuzzy'' \<and> load_word_list E wl lang_a = Inr (wa, wl1)
      \<and> load_word_list E wl1 lang_b = Inr (wb, wl2) \<longrightarrow>
      (\<exists>res wl'. haze E wl sentence lang_a lang_b meth = Inr (res, wl') \<and>
         method_name res = meth \<and>
         map original (word_transformations res) = filter re_match_word (re_findall sentence) \<and>
         list_all (\<lambda>d. wd_method d = meth \<and> fallback_used d = None \<and>
             (\<exists>m s1 s2. find_most_similar_word E (original d) wb True = Inr (m, s1) \<and>
                find_most_similar_word E m wa True = Inr (transformed d, s2) \<and>
                chain d = original d @ arrow @ m @ arrow @ transformed d))
           (word_transformations res)))
   \<and> (meth \<noteq> str ''fuzzy'' \<and> load_word_list E wl lang_b = Inr (wb, wl3) \<longrightarrow>
      (\<exists>res wl'. haze E wl sentence lang_a lang_b meth = Inr (res, wl') \<and>
         method_name res = meth \<and>
         map original (word_transformations res) = filter re_match_word (re_findall sentence) \<and>
         list_all (\<lambda>d. wd_method d = meth \<and> fallback_used d = None \<and>
             (\<exists>m s1. find_most_similar_word E (original d) wb True = Inr (m, s1) \<and>
                transformed d = simple_translate E m lang_b lang_a \<and>
                chain d = original d @ arrow @ m @ arrow @ transformed d))
           (word_transformations res)))"
proof (intro conjI impI)
  assume h: "meth = str ''fuzzy'' \<and> load_word_list E wl lang_a = Inr (wa, wl1)
      \<and> load_word_list E wl1 lang_b = Inr (wb, wl2)"
  then have m: "meth = str ''fuzzy''" and la: "load_word_list E wl lang_a = Inr (wa, wl1)"
    and lb: "load_word_list E wl1 lang_b = Inr (wb, wl2)" by simp_all
  have e: "list_all (haze_detail E lang_a lang_b wa wb (str ''fuzzy'')) []" by simp
  from haze_loop_fuzzy_result [OF la lb e, of "[]" "re_findall sentence"]
  obtain tws wds wl' where
    l: "haze_loop E lang_a lang_b (str ''fuzzy'') wl [] [] (re_findall sentence) = Inr (tws, wds, wl')"
    and p: "list_all (haze_detail E lang_a lang_b wa wb (str ''fuzzy'')) wds"
    and o: "map original wds = filter re_match_word (re_findall sentence)"
    by auto
  have q: "list_all (\<lambda>d. wd_method d = meth \<and> fallback_used d = None \<and>
             (\<exists>m s1 s2. find_most_similar_word E (original d) wb True = Inr (m, s1) \<and>
                find_most_similar_word E m wa True = Inr (transformed d, s2) \<and>
                chain d = original d @ arrow @ m @ arrow @ transformed d)) wds"
    unfolding list_all_iff
  proof
    fix x assume "x \<in> set wds"
    with p have "haze_detail E lang_a lang_b wa wb (str ''fuzzy'') x" by (simp add: list_all_iff)
    then show "wd_method x = meth \<and> fallback_used x = None \<and>
             (\<exists>m s1 s2. find_most_similar_word E (original x) wb True = Inr (m, s1) \<and>
                find_most_similar_word E m wa True = Inr (transformed x, s2) \<and>
                chain x = original x @ arrow @ m @ arrow @ transformed x)"
      unfolding haze_detail_def m by auto
  qed
  show "\<exists>res wl'. haze E wl sentence lang_a lang_b meth = Inr (res, wl') \<and>
         method_name res = meth \<and>
         map original (word_transformations res) = filter re_match_word (re_findall sentence) \<and>
         list_all (\<lambda>d. wd_method d = meth \<and> fallback_used d = None \<and>
             (\<exists>m s1 s2. find_most_similar_word E (original d) wb True = Inr (m, s1) \<and>
                find_most_similar_word E m wa True = Inr (transformed d, s2) \<and>
                chain d = original d @ arrow @ m @ arrow @ transformed d))
           (word_transformations res)"
    using l o q m by (simp add: haze_def)
next
  assume h: "meth \<noteq> str ''fuzzy'' \<and> load_word_list E wl lang_b = Inr (wb, wl3)"
  then have m: "meth \<noteq> str ''fuzzy''" and lb: "load_word_list E wl lang_b = Inr (wb, wl3)"
    by simp_all
  have e: "list_all (haze_detail E lang_a lang_b [] wb meth) []" by simp
  from haze_loop_translate_result [OF lb m e, of "[]" "re_findall sentence"]
  obtain tws wds wl' where
    l: "haze_loop E lang_a lang_b meth wl [] [] (re_findall sentence) = Inr (tws, wds, wl')"
    and p: "list_all (haze_detail E lang_a lang_b [] wb meth) wds"
    and o: "map original wds = filter re_match_word (re_findall sentence)"
    by auto
  have q: "list_all (\<lambda>d. wd_method d = meth \<and> fallback_used d = None \<and>
             (\<exists>m s1. find_most_similar_word E (original d) wb True = Inr (m, s1) \<and>
                transformed d = simple_translate E m lang_b lang_a \<and>
                chain d = original d @ arrow @ m @ arrow @ transformed d)) wds"
    unfolding list_all_iff
  proof
    fix x assume "x \<in> set wds"
    with p have "haze_detail E lang_a lang_b [] wb meth x" by (simp add: list_all_iff)
    then show "wd_method x = meth \<and> fallback_used x = None \<and>
             (\<exists>m s1. find_most_similar_word E (original x) wb True = Inr (m, s1) \<and>
                transformed x = simple_translate E m lang_b lang_a \<and>
                chain x = original x @ arrow @ m @ arrow @ transformed x)"
      unfolding haze_detail_def using m by auto
  qed
  show "\<exists>res wl'. haze E wl sentence lang_a lang_b meth = Inr (res, wl') \<and>
         method_name res = meth \<and>
         map original (word_transformations res) = filter re_match_word (re_findall sentence) \<and>
         list_all (\<lambda>d. wd_method d = meth \<and> fallback_used d = None \<and>
             (\<exists>m s1. find_most_similar_word E (original d) wb True = Inr (m, s1) \<and>
                transformed d = simple_translate E m lang_b lang_a \<and>
                chain d = original d @ arrow @ m @ arrow @ transformed d))
           (word_transformations res)"
    using l o q by (simp add: haze_def)
qed

lemma load_spanish_one_fresh:
  "load_word_list one_word_lists Map.empty (str ''spanish'')
     = Inr ([str ''casa''], [str ''spanish'' \<mapsto> [str ''casa'']])"
  using frequency_spanish_one by (simp add: load_word_list_def Let_def)

theorem haze_dispatch_witness:
  "(\<exists>res wl'. haze one_word_lists Map.empty (str ''hello'') (str ''english'') (str ''spanish'')
                (str ''fuzzy'') = Inr (res, wl') \<and>
         method_name res = str ''fuzzy'' \<and>
         map original (word_transformations res) = filter re_match_word (re_findall (str ''hello'')) \<and>
         list_all (\<lambda>d. wd_method d = str ''fuzzy'' \<and> fallback_used d = None \<and>
             (\<exists>m s1 s2. find_most_similar_word one_word_lists (original d) [str ''casa''] True
                           = Inr (m, s1) \<and>
                find_most_similar_word one_word_lists m [str ''house''] True = Inr (transformed d, s2) \<and>
                chain d = original d @ arrow @ m @ arrow @ transformed d))
           (word_transformations res))
   \<and> (\<exists>res wl'. haze one_word_lists Map.empty (str ''hello'') (str ''english'') (str ''spanish'')
                (str ''hybrid'') = Inr (res, wl') \<and>
         method_name res = str ''hybrid'' \<and>
         map original (word_transformations res) = filter re_match_word (re_findall (str ''hello'')) \<and>
         list_all (\<lambda>d. wd_method d = str ''hybrid'' \<and> fallback_used d = None \<and>
             (\<exists>m s1. find_most_similar_word one_word_lists (original d) [str ''casa''] True
                        = Inr (m, s1) \<and>
                transformed d = simple_translate one_word_lists m (str ''spanish'') (str ''english'') \<and>
                chain d = original d @ arrow @ m @ arrow @ transformed d))
           (word_transformations res))"
proof
  have f: "str ''fuzzy'' = str ''fuzzy''" by simp
  from haze_dispatch [where meth = "str ''fuzzy''" and E = one_word_lists and wl = Map.empty
      and lang_a = "str ''english''" and lang_b = "str ''spanish''"
      and sentence = "str ''hello''", THEN conjunct1, rule_format,
      OF conjI [OF f conjI [OF load_english_one load_spanish_one]]]
  show "\<exists>res wl'. haze one_word_lists Map.empty (str ''hello'') (str ''english'') (str ''spanish'')
                (str ''fuzzy'') = Inr (res, wl') \<and>
         method_name res = str ''fuzzy'' \<and>
         map original (word_transformations res) = filter re_match_word (re_findall (str ''hello'')) \<and>
         list_all (\<lambda>d. wd_method d = str ''fuzzy'' \<and> fallback_used d = None \<and>
             (\<exists>m s1 s2. find_most_similar_word one_word_lists (original d) [str ''casa''] True
                           = Inr (m, s1) \<and>
                find_most_similar_word one_word_lists m [str ''house''] True = Inr (transformed d, s2) \<and>
                chain d = original d @ arrow @ m @ arrow @ transformed d))
           (word_transformations res)" .
next
  have n: "str ''hybrid'' \<noteq> str ''fuzzy''" by simp
  from haze_dispatch [where meth = "str ''hybrid''" and E = one_word_lists and wl = Map.empty
      and lang_a = "str ''english''" and lang_b = "str ''spanish''"
      and sentence = "str ''hello''", THEN conjunct2, rule_format,
      OF conjI [OF n load_spanish_one_fresh]]
  show "\<exists>res wl'. haze one_word_lists Map.empty (str ''hello'') (str ''english'') (str ''spanish'')
                (str ''hybrid'') = Inr (res, wl') \<and>
         method_name res = str ''hybrid'' \<and>
         map original (word_transformations res) = filter re_match_word (re_findall (str ''hello'')) \<and>
         list_all (\<lambda>d. wd_method d = str ''hybrid'' \<and> fallback_used d = None \<and>
             (\<exists>m s1. find_most_similar_word one_word_lists (original d) [str ''casa''] True
                        = Inr (m, s1) \<and>
                transformed d = simple_translate one_word_lists m (str ''spanish'') (str ''english'') \<and>
                chain d = original d @ arrow @ m @ arrow @ transformed d))
           (word_transformations res)" .
qed

section \<open>Errors of the engine\<close>

lemma haze_loop_error:
  "haze_loop E a b meth wl tws wds items = Inl e \<Longrightarrow>
     e = UnsupportedLanguage a \<or> e = UnsupportedLanguage b"
proof (induction items arbitrary: wl tws wds)
  case Nil
  then show ?case by simp
next
  case (Cons item items)
  show ?case
  proof (cases "re_match_word item")
    case False
    with Cons.prems have "haze_loop E a b meth wl (tws @ [item]) wds items = Inl e" by simp
    then show ?thesis by (rule Cons.IH)
  next
    case True
    show ?thesis
    proof (cases "meth = str ''fuzzy''")
      case fz: True
      show ?thesis
      proof (cases "transform_direct_fuzzy E wl item a b")
        case (Inl x)
        with Cons.prems True fz have "e = x" by simp
        with Inl show ?thesis by (auto dest: transform_direct_fuzzy_error)
      next
        case (Inr p)
        obtain r c where p: "p = (r, c)" by (cases p)
        from Cons.prems True fz Inr p
        obtain tws2 wds2 where "haze_loop E a b meth c tws2 wds2 items = Inl e" by simp
        then show ?thesis by (rule Cons.IH)
      qed
    next
      case nf: False
      show ?thesis
      proof (cases "transform_direct_translate E wl item a b")
        case (Inl x)
        with Cons.prems True nf have "e = x" by simp
        with Inl show ?thesis by (auto dest: transform_direct_translate_error)
      next
        case (Inr p)
        obtain r c where p: "p = (r, c)" by (cases p)
        from Cons.prems True nf Inr p
        obtain tws2 wds2 where "haze_loop E a b meth c tws2 wds2 items = Inl e" by simp
        then show ?thesis by (rule Cons.IH)
      qed
    qed
  qed
qed

lemma hybrid_loop_error:
  "hybrid_loop E a b wl tws wds items = Inl e \<Longrightarrow>
     e = UnsupportedLanguage a \<or> e = UnsupportedLanguage b"
proof (induction items arbitrary: wl tws wds)
  case Nil
  then show ?case by simp
next
  case (Cons item items)
  show ?case
  proof (cases "re_match_word item")
    case False
    with Cons.prems have "hybrid_loop E a b wl (tws @ [item]) wds items = Inl e" by simp
    then show ?thesis by (rule Cons.IH)
  next
    case True
    show ?thesis
    proof (cases "fuzzy_haze E wl item a b")
      case (Inl x)
      with Cons.prems True have "e = x" by simp
      with Inl show ?thesis by (auto dest: fuzzy_haze_error)
    next
      case (Inr p)
      obtain r c where p: "p = (r, c)" by (cases p)
      from Cons.prems True Inr p
      obtain tws2 wds2 where "hybrid_loop E a b c tws2 wds2 items = Inl e" by simp
      then show ?thesis by (rule Cons.IH)
    qed
  qed
qed

lemma haze_error:
  "haze E wl s a b meth = Inl e \<Longrightarrow> e = UnsupportedLanguage a \<or> e = UnsupportedLanguage b"
  by (auto simp: haze_def split: sum.splits dest: haze_loop_error)

lemma hybrid_haze_error:
  "hybrid_haze E wl s a b = Inl e \<Longrightarrow> e = UnsupportedLanguage a \<or> e = UnsupportedLanguage b"
  by (auto simp: hybrid_haze_def split: sum.splits dest: hybrid_loop_error)

lemma rehaze_loop_unfold:
  assumes "i < mx" and "hybrid_haze E wl cur a b = Inr (tr, wl')"
  shows "\<exists>it outp. rehaze_loop E a b mx thr i wl cur its =
          (if thr \<le> similarity_to_previous it then Inr (cur, its @ [it], wl')
           else rehaze_loop E a b mx thr (i + 1) wl' outp (its @ [it]))"
proof -
  define outp where "outp = cleanup (transformed_sentence tr)"
  define it where "it = \<lparr>iteration = i + 1, input_text = cur, output_text = outp,
       similarity_to_previous = (if i > 0 then ratio E (lower cur) (lower outp) else 0),
       it_word_transformations = word_transformations tr,
       transformation_count = length (word_transformations tr)\<rparr>"
  have "rehaze_loop E a b mx thr i wl cur its =
          (if thr \<le> similarity_to_previous it then Inr (cur, its @ [it], wl')
           else rehaze_loop E a b mx thr (i + 1) wl' outp (its @ [it]))"
    using rehaze_loop_step [OF assms, of thr its] by (simp add: it_def outp_def)
  then show ?thesis by blast
qed

lemma rehaze_loop_error:
  "rehaze_loop E a b mx thr i wl cur its = Inl e \<Longrightarrow>
     e = UnsupportedLanguage a \<or> e = UnsupportedLanguage b"
proof (induction "nat (mx - i)" arbitrary: i wl cur its)
  case 0
  then have "\<not> i < mx" by simp
  with "0.prems" show ?case by (simp add: rehaze_loop_done)
next
  case (Suc n)
  then have lt: "i < mx" by simp
  show ?case
  proof (cases "hybrid_haze E wl cur a b")
    case (Inl x)
    with Suc.prems lt have "e = x" by (subst (asm) rehaze_loop.simps) simp
    with Inl show ?thesis by (auto dest: hybrid_haze_error)
  next
    case (Inr p)
    obtain tr wl' where p: "p = (tr, wl')" by (cases p)
    have n: "n = nat (mx - (i + 1))" using Suc.hyps(2) by simp
    from rehaze_loop_unfold [OF lt Inr [unfolded p], of thr its]
    obtain it outp where u: "rehaze_loop E a b mx thr i wl cur its =
          (if thr \<le> similarity_to_previous it then Inr (cur, its @ [it], wl')
           else rehaze_loop E a b mx thr (i + 1) wl' outp (its @ [it]))"
      by blast
    show ?thesis
    proof (cases "thr \<le> similarity_to_previous it")
      case True
      with u Suc.prems show ?thesis by simp
    next
      case False
      with u Suc.prems have "rehaze_loop E a b mx thr (i + 1) wl' outp (its @ [it]) = Inl e"
        by simp
      from Suc.hyps(1) [OF n this] show ?thesis .
    qed
  qed
qed

lemma rehaze_error:
  "rehaze E wl s a b mx thr = Inl e \<Longrightarrow> e = UnsupportedLanguage a \<or> e = UnsupportedLanguage b"
  by (auto simp: rehaze_def split: sum.splits dest: rehaze_loop_error)

text \<open>
  C3, as the code has it: \<open>load_word_list\<close> raises exactly when the language is not in the
  cache, both network tiers give nothing and the language has no embedded list, and what
  it raises is \<open>UnsupportedLanguage\<close>; on a fresh engine \<open>load("klingon")\<close> raises whatever
  the network does; and the only error of \<open>haze\<close>, \<open>hybrid_haze\<close> and \<open>rehaze\<close> is
  \<open>UnsupportedLanguage\<close> for one of their two languages.
\<close>

theorem unsupported_language_only:
  "((\<exists>e. load_word_list E wl l = Inl e) \<longleftrightarrow>
      wl l = None \<and> try_frequency_lists E l = [] \<and> try_online_wordlist E l = [] \<and>
      map_of sample_words (lower l) = None)
   \<and> (\<forall>e. load_word_list E wl l = Inl e \<longrightarrow> e = UnsupportedLanguage l)
   \<and> load_word_list E Map.empty (str ''klingon'') = Inl (UnsupportedLanguage (str ''klingon''))
   \<and> (\<forall>e. haze E wl s a b meth = Inl e \<longrightarrow> e = UnsupportedLanguage a \<or> e = UnsupportedLanguage b)
   \<and> (\<forall>e. hybrid_haze E wl s a b = Inl e \<longrightarrow> e = UnsupportedLanguage a \<or> e = UnsupportedLanguage b)
   \<and> (\<forall>e. rehaze E wl s a b mx thr = Inl e \<longrightarrow>
         e = UnsupportedLanguage a \<or> e = UnsupportedLanguage b)"
proof (intro conjI allI impI)
  show "(\<exists>e. load_word_list E wl l = Inl e) \<longleftrightarrow>
      wl l = None \<and> try_frequency_lists E l = [] \<and> try_online_wordlist E l = [] \<and>
      map_of sample_words (lower l) = None"
    using load_error [of E wl l] load_raises [of wl l E] by blast
  show "load_word_list E Map.empty (str ''klingon'') = Inl (UnsupportedLanguage (str ''klingon''))"
    using load_raises [of Map.empty "str ''klingon''" E] tiers_klingon no_builtin_klingon by simp
next
  fix e assume "load_word_list E wl l = Inl e"
  then show "e = UnsupportedLanguage l" by (simp add: load_error)
next
  fix e assume "haze E wl s a b meth = Inl e"
  then show "e = UnsupportedLanguage a \<or> e = UnsupportedLanguage b" by (rule haze_error)
next
  fix e assume "hybrid_haze E wl s a b = Inl e"
  then show "e = UnsupportedLanguage a \<or> e = UnsupportedLanguage b" by (rule hybrid_haze_error)
next
  fix e assume "rehaze E wl s a b mx thr = Inl e"
  then show "e = UnsupportedLanguage a \<or> e = UnsupportedLanguage b" by (rule rehaze_error)
qed

lemma hybrid_haze_klingon:
  "hybrid_haze offline Map.empty (str ''hello'') (str ''klingon'') (str ''spanish'')
     = Inl (UnsupportedLanguage (str ''klingon''))"
proof -
  have l: "load_word_list offline Map.empty (str ''klingon'')
             = Inl (UnsupportedLanguage (str ''klingon''))"
    using load_raises [of Map.empty "str ''klingon''" offline] tiers_klingon no_builtin_klingon
    by simp
  have re: "re_match_word (str ''hello'')"
    by (simp add: re_match_word_def isword_cp_def isalpha_cp_def)
  show ?thesis using l re findall_hello by (simp add: hybrid_haze_def fuzzy_haze_def)
qed

theorem unsupported_language_only_witness:
  "(\<exists>e. load_word_list offline Map.empty (str ''klingon'') = Inl e)
   \<and> Map.empty (str ''klingon'') = (None :: pystr list option)
   \<and> try_frequency_lists offline (str ''klingon'') = []
   \<and> try_online_wordlist offline (str ''klingon'') = []
   \<and> map_of sample_words (lower (str ''klingon'')) = None
   \<and> hybrid_haze offline Map.empty (str ''hello'') (str ''klingon'') (str ''spanish'')
       = Inl (UnsupportedLanguage (str ''klingon''))"
proof -
  note u = unsupported_language_only [of offline Map.empty "str ''klingon''" "str ''hello''"
      "str ''klingon''" "str ''spanish''" "str ''fuzzy''" 20 0]
  have k: "load_word_list offline Map.empty (str ''klingon'')
             = Inl (UnsupportedLanguage (str ''klingon''))"
    by (rule u [THEN conjunct2, THEN conjunct2, THEN conjunct1])
  then have ex: "\<exists>e. load_word_list offline Map.empty (str ''klingon'') = Inl e" by (rule exI)
  have t: "Map.empty (str ''klingon'') = (None :: pystr list option)
   \<and> try_frequency_lists offline (str ''klingon'') = []
   \<and> try_online_wordlist offline (str ''klingon'') = []
   \<and> map_of sample_words (lower (str ''klingon'')) = None"
    by (rule u [THEN conjunct1, THEN iffD1, OF ex])
  from u [THEN conjunct2, THEN conjunct2, THEN conjunct2, THEN conjunct2, THEN conjunct1]
  have "hybrid_haze offline Map.empty (str ''hello'') (str ''klingon'') (str ''spanish'')
       = Inl (UnsupportedLanguage (str ''klingon''))"
    using hybrid_haze_klingon by blast
  with ex t show ?thesis by blast
qed

text \<open>
  A cached language does not raise: after the frequency list of Dutch was loaded once, a
  later \<open>load("dutch")\<close> returns the cached list, although both network tiers now give
  nothing and Dutch has no embedded list.
\<close>

theorem cached_language_counterexample:
  "load_word_list dutch_online Map.empty (str ''dutch'')
     = Inr ([str ''de'', str ''het''], [str ''dutch'' \<mapsto> [str ''de'', str ''het'']])
   \<and> try_frequency_lists offline (str ''dutch'') = []
   \<and> try_online_wordlist offline (str ''dutch'') = []
   \<and> map_of sample_words (lower (str ''dutch'')) = None
   \<and> load_word_list offline [str ''dutch'' \<mapsto> [str ''de'', str ''het'']] (str ''dutch'')
       = Inr ([str ''de'', str ''het''], [str ''dutch'' \<mapsto> [str ''de'', str ''het'']])"
proof -
  have "load_word_list offline [str ''dutch'' \<mapsto> [str ''de'', str ''het'']] (str ''dutch'')
       = Inr ([str ''de'', str ''het''], [str ''dutch'' \<mapsto> [str ''de'', str ''het'']])"
    by (rule load_hit) simp
  with load_dutch_online tiers_offline [of "str ''dutch''"] no_builtin_dutch
  show ?thesis by blast
qed

section \<open>The convergence loop on an unsupported language\<close>

text \<open>
  An unsupported language: \<open>rehaze("hello", "klingon", "spanish", 20, 0.0)\<close> with no
  network does not converge, it raises \<open>UnsupportedLanguage\<close> when the first word is
  transformed.
\<close>

theorem rehaze_unsupported_counterexample:
  "rehaze offline Map.empty (str ''hello'') (str ''klingon'') (str ''spanish'') 20 0
     = Inl (UnsupportedLanguage (str ''klingon''))"
proof -
  have "(0::int) < 20" by simp
  then have "rehaze_loop offline (str ''klingon'') (str ''spanish'') 20 0 0 Map.empty (str ''hello'') []
               = Inl (UnsupportedLanguage (str ''klingon''))"
    using hybrid_haze_klingon by (subst rehaze_loop.simps) simp
  then show ?thesis by (simp add: rehaze_def)
qed

end
